theory Spec2Isabelle
  imports Main
begin

section \<open>Common ground: addresses, checked 256-bit arithmetic, reverts\<close>

text \<open>
  The three contracts (EvoPool, AgentController, EpochManager) are Solidity 0.8 code.
  A \<open>uint256\<close> is modelled as a natural number together with the checks the compiler
  inserts: an addition or multiplication whose result does not fit into 256 bits, a
  subtraction below zero and a division by zero all revert with a panic.  A revert rolls
  the whole transaction back, so every operation returns either \<open>Inl e\<close> (the revert
  reason; the state before the call stands unchanged) or \<open>Inr\<close> of the new state.
  Custom errors are identified by their signature only, so the equally named errors of
  the three contracts are one constructor each.  \<open>Panic\<close> is the compiler's arithmetic
  panic, \<open>EmptyRevert\<close> a bare \<open>revert()\<close>, \<open>TokenReverted\<close> a revert inside a call to
  one of the traded tokens and \<open>OwnableUnauthorized\<close> the rejection by \<open>onlyOwner\<close>.

  Calls are taken one at a time: the reentrancy guard, which only rejects a call nested
  inside another, never fires and is left out, and so are the events, which are not
  part of the state.  \<open>msg.sender\<close>, \<open>msg.value\<close>, \<open>block.timestamp\<close> and \<open>block.number\<close>
  are arguments (\<open>sender\<close>, \<open>v\<close>, \<open>now\<close>, \<open>blockNumber\<close>) where the function reads them.
\<close>

type_synonym address = nat

datatype error =
    ZeroAmount | InsufficientOutput | InsufficientLiquidity | InvalidTokens
  | OnlyController | FeeTooHigh | InvalidCurveMode | ProtocolFeeTooHigh | PoolPaused
  | NotRegistered | AlreadyRegistered | BondTooLow | CooldownActive | DeltaExceedsLimit
  | Paused | InsufficientSlashAmount | TransferFailed | StillActive
  | EpochNotActive | EpochStillActive | AlreadyProposed | AlreadyFinalized | NotScorer
  | NoProposals | InvalidScoreCount | NothingToClaim | AgentNotRegistered
  | Panic | EmptyRevert | TokenReverted | OwnableUnauthorized

definition UINT256_MAX :: nat where
  "UINT256_MAX = 2 ^ 256 - 1"

definition checked_add :: "nat \<Rightarrow> nat \<Rightarrow> error + nat" where
  "checked_add a b = (if a + b \<le> UINT256_MAX then Inr (a + b) else Inl Panic)"

definition checked_sub :: "nat \<Rightarrow> nat \<Rightarrow> error + nat" where
  "checked_sub a b = (if b \<le> a then Inr (a - b) else Inl Panic)"

definition checked_mul :: "nat \<Rightarrow> nat \<Rightarrow> error + nat" where
  "checked_mul a b = (if a * b \<le> UINT256_MAX then Inr (a * b) else Inl Panic)"

definition checked_div :: "nat \<Rightarrow> nat \<Rightarrow> error + nat" where
  "checked_div a b = (if b = 0 then Inl Panic else Inr (a div b))"

text \<open>Sequencing of steps that may revert: the first revert ends the call.\<close>

definition bindE :: "error + 'a \<Rightarrow> ('a \<Rightarrow> error + 'b) \<Rightarrow> error + 'b" where
  "bindE m f = (case m of Inl e \<Rightarrow> Inl e | Inr a \<Rightarrow> f a)"

section \<open>EvoPool\<close>

datatype CurveMode = Normal | Defensive | VolatilityAdaptive

text \<open>\<open>uint8(_curveMode)\<close> and the conversion \<open>IEvoPool.CurveMode(n)\<close>, which panics
  outside the enum's range.\<close>

fun curveModeIndex :: "CurveMode \<Rightarrow> nat" where
  "curveModeIndex Normal = 0"
| "curveModeIndex Defensive = 1"
| "curveModeIndex VolatilityAdaptive = 2"

definition toCurveMode :: "nat \<Rightarrow> error + CurveMode" where
  "toCurveMode n = (if n = 0 then Inr Normal else if n = 1 then Inr Defensive
     else if n = 2 then Inr VolatilityAdaptive else Inl Panic)"

text \<open>
  The storage of the pool.  \<open>balances\<close> and \<open>totalSupply\<close> are the LP-share ledger the
  contract inherits from ERC20; \<open>owner\<close> is the Ownable owner.  The two traded tokens
  are external contracts: what they do during a call is an argument of the operation
  (the amount the balance difference measures, or that the transfer reverted).
\<close>

record EvoPool =
  reserve0 :: nat
  reserve1 :: nat
  feeBps :: nat
  curveBeta :: nat
  curveMode :: CurveMode
  controller :: address
  epochManager :: address
  tradeCount :: nat
  cumulativeVolume0 :: nat
  cumulativeVolume1 :: nat
  price0CumulativeLast :: nat
  price1CumulativeLast :: nat
  blockTimestampLast :: nat
  protocolFeeBps :: nat
  treasury :: address
  protocolFeeAccum0 :: nat
  protocolFeeAccum1 :: nat
  parameterUpdateBlock :: nat
  paused :: bool
  balances :: "address \<Rightarrow> nat"
  totalSupply :: nat
  owner :: address

definition MAX_FEE_BPS :: nat where "MAX_FEE_BPS = 500"
definition MAX_PROTOCOL_FEE_BPS :: nat where "MAX_PROTOCOL_FEE_BPS = 2000"
definition BETA_SCALE :: nat where "BETA_SCALE = 10000"
definition MINIMUM_LIQUIDITY :: nat where "MINIMUM_LIQUIDITY = 1000"
definition Q112 :: nat where "Q112 = 2 ^ 112"
definition WAD :: nat where "WAD = 1000000000000000000"

text \<open>The constructor.  The two token addresses are immutable and only checked here;
  the treasury starts as the owner.\<close>

definition newEvoPool :: "address \<Rightarrow> address \<Rightarrow> nat \<Rightarrow> nat \<Rightarrow> address \<Rightarrow> error + EvoPool" where
  "newEvoPool token0 token1 initialFeeBps initialCurveBeta ownr =
     (if token0 = token1 \<or> token0 = 0 \<or> token1 = 0 then Inl InvalidTokens
      else if initialFeeBps > MAX_FEE_BPS then Inl FeeTooHigh
      else Inr \<lparr>reserve0 = 0, reserve1 = 0, feeBps = initialFeeBps,
                curveBeta = initialCurveBeta, curveMode = Normal, controller = 0,
                epochManager = 0, tradeCount = 0, cumulativeVolume0 = 0,
                cumulativeVolume1 = 0, price0CumulativeLast = 0, price1CumulativeLast = 0,
                blockTimestampLast = 0, protocolFeeBps = 0, treasury = ownr,
                protocolFeeAccum0 = 0, protocolFeeAccum1 = 0, parameterUpdateBlock = 0,
                paused = False, balances = (\<lambda>_. 0), totalSupply = 0, owner = ownr\<rparr>)"

definition setController :: "address \<Rightarrow> address \<Rightarrow> EvoPool \<Rightarrow> error + EvoPool" where
  "setController sender c s =
     (if sender \<noteq> owner s then Inl OwnableUnauthorized else Inr (s\<lparr>controller := c\<rparr>))"

definition setEpochManager :: "address \<Rightarrow> address \<Rightarrow> EvoPool \<Rightarrow> error + EvoPool" where
  "setEpochManager sender e s =
     (if sender \<noteq> owner s then Inl OwnableUnauthorized else Inr (s\<lparr>epochManager := e\<rparr>))"

definition setProtocolFee :: "address \<Rightarrow> nat \<Rightarrow> EvoPool \<Rightarrow> error + EvoPool" where
  "setProtocolFee sender v s =
     (if sender \<noteq> owner s then Inl OwnableUnauthorized
      else if v > MAX_PROTOCOL_FEE_BPS then Inl ProtocolFeeTooHigh
      else Inr (s\<lparr>protocolFeeBps := v\<rparr>))"

definition pause :: "address \<Rightarrow> EvoPool \<Rightarrow> error + EvoPool" where
  "pause sender s =
     (if sender \<noteq> owner s then Inl OwnableUnauthorized else Inr (s\<lparr>paused := True\<rparr>))"

definition unpause :: "address \<Rightarrow> EvoPool \<Rightarrow> error + EvoPool" where
  "unpause sender s =
     (if sender \<noteq> owner s then Inl OwnableUnauthorized else Inr (s\<lparr>paused := False\<rparr>))"

text \<open>\<open>collectProtocolFees\<close> carries no pause modifier.  \<open>pushOk\<close> says whether the
  token transfers to the treasury go through.\<close>

definition collectProtocolFees :: "bool \<Rightarrow> EvoPool \<Rightarrow> error + EvoPool" where
  "collectProtocolFees pushOk s =
     (let fee0 = protocolFeeAccum0 s;
          fee1 = protocolFeeAccum1 s;
          s1 = s\<lparr>protocolFeeAccum0 := 0, protocolFeeAccum1 := 0\<rparr>
      in if (fee0 > 0 \<or> fee1 > 0) \<and> \<not> pushOk then Inl TokenReverted else Inr s1)"

text \<open>
  \<open>_updateTWAP\<close>: the whole body is \<open>unchecked\<close>, so the timestamp difference wraps at
  \<open>2^32\<close> and the products and sums of the accumulators wrap at \<open>2^256\<close>.
\<close>

definition updateTWAP :: "nat \<Rightarrow> EvoPool \<Rightarrow> EvoPool" where
  "updateTWAP now s =
     (let blockTimestamp = now mod 2 ^ 32;
          timeElapsed = (blockTimestamp + 2 ^ 32 - blockTimestampLast s) mod 2 ^ 32
      in if timeElapsed > 0 \<and> reserve0 s > 0 \<and> reserve1 s > 0
         then s\<lparr>price0CumulativeLast :=
                   (price0CumulativeLast s
                     + ((reserve1 s * Q112) mod 2 ^ 256 div reserve0 s) * timeElapsed) mod 2 ^ 256,
                 price1CumulativeLast :=
                   (price1CumulativeLast s
                     + ((reserve0 s * Q112) mod 2 ^ 256 div reserve1 s) * timeElapsed) mod 2 ^ 256,
                 blockTimestampLast := blockTimestamp\<rparr>
         else s)"

text \<open>The two sides of a swap: \<open>zeroForOne ? reserve0 : reserve1\<close> and its mirror image,
  and likewise the fee accumulator of the token that comes in and of the one that goes
  out.\<close>

definition reserveIn :: "bool \<Rightarrow> EvoPool \<Rightarrow> nat" where
  "reserveIn zeroForOne s = (if zeroForOne then reserve0 s else reserve1 s)"

definition reserveOut :: "bool \<Rightarrow> EvoPool \<Rightarrow> nat" where
  "reserveOut zeroForOne s = (if zeroForOne then reserve1 s else reserve0 s)"

definition feeAccumIn :: "bool \<Rightarrow> EvoPool \<Rightarrow> nat" where
  "feeAccumIn zeroForOne s = (if zeroForOne then protocolFeeAccum0 s else protocolFeeAccum1 s)"

definition feeAccumOut :: "bool \<Rightarrow> EvoPool \<Rightarrow> nat" where
  "feeAccumOut zeroForOne s = (if zeroForOne then protocolFeeAccum1 s else protocolFeeAccum0 s)"

text \<open>\<open>_applyCurve\<close>, step by step as in the source, every product checked.\<close>

definition applyCurve :: "EvoPool \<Rightarrow> nat \<Rightarrow> bool \<Rightarrow> error + nat" where
  "applyCurve s amountIn zeroForOne =
     (if curveMode s = Normal then Inr amountIn
      else
        let rIn = reserveIn zeroForOne s
        in if curveMode s = Defensive then
             bindE (checked_mul amountIn WAD) (\<lambda>a.
             bindE (checked_div a rIn) (\<lambda>w.
             bindE (checked_mul w w) (\<lambda>ww.
             bindE (checked_div ww WAD) (\<lambda>wSquared.
             bindE (checked_mul (curveBeta s) wSquared) (\<lambda>bw.
             bindE (checked_div bw WAD) (\<lambda>penalty.
             bindE (checked_mul amountIn penalty) (\<lambda>ap.
             bindE (checked_div ap BETA_SCALE) (\<lambda>extra.
             checked_add amountIn extra))))))))
           else
             bindE (checked_mul amountIn BETA_SCALE) (\<lambda>a.
             bindE (checked_div a rIn) (\<lambda>ratio.
             bindE (checked_mul (curveBeta s) ratio) (\<lambda>br.
             bindE (checked_mul BETA_SCALE BETA_SCALE) (\<lambda>sc.
             bindE (checked_div br sc) (\<lambda>penalty.
             bindE (checked_mul amountIn penalty) (\<lambda>ap.
             bindE (checked_div ap BETA_SCALE) (\<lambda>extra.
             checked_add amountIn extra))))))))"

text \<open>The protocol's share of the swap fee (lines 309 to 312 of the pool).\<close>

definition protocolFeeOf :: "EvoPool \<Rightarrow> nat \<Rightarrow> error + nat" where
  "protocolFeeOf s feeAmount =
     (if protocolFeeBps s > 0 \<and> feeAmount > 0
      then bindE (checked_mul feeAmount (protocolFeeBps s)) (\<lambda>x. checked_div x 10000)
      else Inr 0)"

text \<open>The reserve update of \<open>swap\<close> (lines 323 to 337), for either direction.\<close>

definition updateReserves :: "bool \<Rightarrow> nat \<Rightarrow> nat \<Rightarrow> nat \<Rightarrow> EvoPool \<Rightarrow> error + EvoPool" where
  "updateReserves zeroForOne actualIn amountOut protocolFee s =
     (if zeroForOne then
        bindE (checked_add (reserve0 s) actualIn) (\<lambda>r0.
        bindE (checked_sub (reserve1 s) amountOut) (\<lambda>r1.
        if protocolFee > 0 then
          bindE (checked_add (protocolFeeAccum0 s) protocolFee) (\<lambda>acc.
          bindE (checked_sub r0 protocolFee) (\<lambda>r0'.
          Inr (s\<lparr>reserve0 := r0', reserve1 := r1, protocolFeeAccum0 := acc\<rparr>)))
        else Inr (s\<lparr>reserve0 := r0, reserve1 := r1\<rparr>)))
      else
        bindE (checked_add (reserve1 s) actualIn) (\<lambda>r1.
        bindE (checked_sub (reserve0 s) amountOut) (\<lambda>r0.
        if protocolFee > 0 then
          bindE (checked_add (protocolFeeAccum1 s) protocolFee) (\<lambda>acc.
          bindE (checked_sub r1 protocolFee) (\<lambda>r1'.
          Inr (s\<lparr>reserve1 := r1', reserve0 := r0, protocolFeeAccum1 := acc\<rparr>)))
        else Inr (s\<lparr>reserve1 := r1, reserve0 := r0\<rparr>))))"

text \<open>The trade counters at the end of \<open>swap\<close> (lines 343 to 348).\<close>

definition trackStats :: "bool \<Rightarrow> nat \<Rightarrow> EvoPool \<Rightarrow> error + EvoPool" where
  "trackStats zeroForOne actualIn s =
     bindE (checked_add (tradeCount s) 1) (\<lambda>tc.
     if zeroForOne then
       bindE (checked_add (cumulativeVolume0 s) actualIn) (\<lambda>v.
       Inr (s\<lparr>tradeCount := tc, cumulativeVolume0 := v\<rparr>))
     else
       bindE (checked_add (cumulativeVolume1 s) actualIn) (\<lambda>v.
       Inr (s\<lparr>tradeCount := tc, cumulativeVolume1 := v\<rparr>)))"

text \<open>
  \<open>swap\<close>.  \<open>received\<close> is what the input token does: \<open>None\<close> when \<open>safeTransferFrom\<close>
  reverts, \<open>Some actualIn\<close> with the measured balance difference otherwise; \<open>pushOk\<close> says
  whether the transfer of the output to the caller goes through.  The result is
  \<open>amountOut\<close> and the new storage.
\<close>

definition swap ::
  "bool \<Rightarrow> nat \<Rightarrow> nat \<Rightarrow> nat \<Rightarrow> nat option \<Rightarrow> bool \<Rightarrow> EvoPool \<Rightarrow> error + (nat \<times> EvoPool)" where
  "swap zeroForOne amountIn minAmountOut now received pushOk s =
     (if paused s then Inl PoolPaused
      else if amountIn = 0 then Inl ZeroAmount
      else if reserve0 s = 0 \<or> reserve1 s = 0 then Inl InsufficientLiquidity
      else
        let s1 = updateTWAP now s
        in case received of
             None \<Rightarrow> Inl TokenReverted
           | Some actualIn \<Rightarrow>
               bindE (applyCurve s1 actualIn zeroForOne) (\<lambda>effectiveIn.
               bindE (checked_mul effectiveIn (feeBps s1)) (\<lambda>ef.
               bindE (checked_div ef 10000) (\<lambda>feeAmount.
               bindE (checked_sub effectiveIn feeAmount) (\<lambda>amountInAfterFee.
               bindE (protocolFeeOf s1 feeAmount) (\<lambda>protocolFee.
               bindE (checked_mul (reserveOut zeroForOne s1) amountInAfterFee) (\<lambda>num.
               bindE (checked_add (reserveIn zeroForOne s1) amountInAfterFee) (\<lambda>den.
               bindE (checked_div num den) (\<lambda>amountOut.
               if amountOut < minAmountOut then Inl InsufficientOutput
               else
                 bindE (updateReserves zeroForOne actualIn amountOut protocolFee s1) (\<lambda>s2.
                 if \<not> pushOk then Inl TokenReverted
                 else bindE (trackStats zeroForOne actualIn s2) (\<lambda>s3.
                      Inr (amountOut, s3))))))))))))"

text \<open>\<open>updateParameters\<close>: \<open>onlyController\<close> and the two range checks; no pause modifier
  and no condition on \<open>_curveBeta\<close>.\<close>

definition updateParameters ::
  "address \<Rightarrow> nat \<Rightarrow> nat \<Rightarrow> CurveMode \<Rightarrow> address \<Rightarrow> nat \<Rightarrow> EvoPool \<Rightarrow> error + EvoPool" where
  "updateParameters sender newFeeBps newCurveBeta newCurveMode agent blockNumber s =
     (if sender \<noteq> controller s \<and> sender \<noteq> epochManager s then Inl OnlyController
      else if newFeeBps > MAX_FEE_BPS then Inl FeeTooHigh
      else if curveModeIndex newCurveMode > 2 then Inl InvalidCurveMode
      else Inr (s\<lparr>feeBps := newFeeBps, curveBeta := newCurveBeta,
                  curveMode := newCurveMode, parameterUpdateBlock := blockNumber\<rparr>))"

text \<open>\<open>_sqrt\<close>: the Babylonian loop.  \<open>z\<close> strictly decreases with every iteration.\<close>

function sqrt_loop :: "nat \<Rightarrow> nat \<Rightarrow> nat \<Rightarrow> error + nat" where
  "sqrt_loop y x z =
     (if x < z then
        (if x = 0 then Inl Panic
         else if y div x + x > UINT256_MAX then Inl Panic
         else sqrt_loop y ((y div x + x) div 2) x)
      else Inr z)"
  by pat_completeness auto
termination
  by (relation "measure (\<lambda>(y, x, z). z)") auto

definition sqrt_u :: "nat \<Rightarrow> error + nat" where
  "sqrt_u y = (if y > 3 then sqrt_loop y (y div 2 + 1) y
               else if y \<noteq> 0 then Inr 1 else Inr 0)"

text \<open>ERC20 \<open>_mint\<close> and \<open>_burn\<close> of the LP shares.\<close>

definition mint :: "address \<Rightarrow> nat \<Rightarrow> EvoPool \<Rightarrow> error + EvoPool" where
  "mint to v s =
     bindE (checked_add (totalSupply s) v) (\<lambda>ts.
     Inr (s\<lparr>totalSupply := ts, balances := (balances s)(to := balances s to + v)\<rparr>))"

definition burn :: "address \<Rightarrow> nat \<Rightarrow> EvoPool \<Rightarrow> error + EvoPool" where
  "burn from v s =
     bindE (checked_sub (balances s from) v) (\<lambda>b.
     Inr (s\<lparr>balances := (balances s)(from := b), totalSupply := totalSupply s - v\<rparr>))"

text \<open>\<open>addLiquidity\<close>: \<open>received\<close> is \<open>None\<close> when a token pull reverts, otherwise the two
  measured balance differences.\<close>

definition addLiquidity ::
  "address \<Rightarrow> nat \<Rightarrow> nat \<Rightarrow> nat \<Rightarrow> (nat \<times> nat) option \<Rightarrow> EvoPool \<Rightarrow> error + (nat \<times> EvoPool)" where
  "addLiquidity sender amount0 amount1 now received s =
     (if paused s then Inl PoolPaused
      else if amount0 = 0 \<or> amount1 = 0 then Inl ZeroAmount
      else
        let s1 = updateTWAP now s
        in case received of
             None \<Rightarrow> Inl TokenReverted
           | Some (actual0, actual1) \<Rightarrow>
               bindE (if totalSupply s1 = 0 then
                        bindE (checked_mul actual0 actual1) (\<lambda>p.
                        bindE (sqrt_u p) (\<lambda>r.
                        bindE (checked_sub r MINIMUM_LIQUIDITY) (\<lambda>l.
                        bindE (mint 1 MINIMUM_LIQUIDITY s1) (\<lambda>s2. Inr (l, s2)))))
                      else
                        bindE (checked_mul actual0 (totalSupply s1)) (\<lambda>a0.
                        bindE (checked_div a0 (reserve0 s1)) (\<lambda>liq0.
                        bindE (checked_mul actual1 (totalSupply s1)) (\<lambda>a1.
                        bindE (checked_div a1 (reserve1 s1)) (\<lambda>liq1.
                        Inr (if liq0 < liq1 then liq0 else liq1, s1))))))
                 (\<lambda>(liquidity, s2).
               if liquidity = 0 then Inl InsufficientLiquidity
               else
                 bindE (mint sender liquidity s2) (\<lambda>s3.
                 bindE (checked_add (reserve0 s3) actual0) (\<lambda>r0.
                 bindE (checked_add (reserve1 s3) actual1) (\<lambda>r1.
                 Inr (liquidity, s3\<lparr>reserve0 := r0, reserve1 := r1\<rparr>))))))"

text \<open>\<open>removeLiquidity\<close> carries no pause modifier.\<close>

definition removeLiquidity ::
  "address \<Rightarrow> nat \<Rightarrow> nat \<Rightarrow> bool \<Rightarrow> EvoPool \<Rightarrow> error + ((nat \<times> nat) \<times> EvoPool)" where
  "removeLiquidity sender liquidity now pushOk s =
     (if liquidity = 0 then Inl ZeroAmount
      else if balances s sender < liquidity then Inl InsufficientLiquidity
      else
        let s1 = updateTWAP now s
        in bindE (checked_mul liquidity (reserve0 s1)) (\<lambda>m0.
           bindE (checked_div m0 (totalSupply s1)) (\<lambda>amount0.
           bindE (checked_mul liquidity (reserve1 s1)) (\<lambda>m1.
           bindE (checked_div m1 (totalSupply s1)) (\<lambda>amount1.
           if amount0 = 0 \<or> amount1 = 0 then Inl InsufficientLiquidity
           else
             bindE (burn sender liquidity s1) (\<lambda>s2.
             bindE (checked_sub (reserve0 s2) amount0) (\<lambda>r0.
             bindE (checked_sub (reserve1 s2) amount1) (\<lambda>r1.
             if \<not> pushOk then Inl TokenReverted
             else Inr ((amount0, amount1), s2\<lparr>reserve0 := r0, reserve1 := r1\<rparr>)))))))))"

section \<open>AgentController\<close>

record AgentInfo =
  agentAddress :: address
  bondAmount :: nat
  tokenBondAmount :: nat
  registeredAt :: nat
  lastUpdateTime :: nat
  active :: bool

text \<open>The storage of the controller; \<open>ctrl_paused\<close> and \<open>ctrl_owner\<close> are its \<open>paused\<close>
  flag and its Ownable owner (the pool has fields of the same names).\<close>

record AgentController =
  minBond :: nat
  cooldownSeconds :: nat
  maxFeeDelta :: nat
  maxBetaDelta :: nat
  agents :: "address \<Rightarrow> AgentInfo"
  agentList :: "address list"
  updateCount :: "address \<Rightarrow> nat"
  ctrl_paused :: bool
  ctrl_owner :: address

definition noAgent :: AgentInfo where
  "noAgent = \<lparr>agentAddress = 0, bondAmount = 0, tokenBondAmount = 0, registeredAt = 0,
     lastUpdateTime = 0, active = False\<rparr>"

text \<open>The constructor: no agent is known, every entry of the mapping is the zero record.\<close>

definition newAgentController :: "nat \<Rightarrow> nat \<Rightarrow> nat \<Rightarrow> nat \<Rightarrow> address \<Rightarrow> AgentController" where
  "newAgentController minBond0 cooldown0 maxFeeDelta0 maxBetaDelta0 ownr =
     \<lparr>minBond = minBond0, cooldownSeconds = cooldown0, maxFeeDelta = maxFeeDelta0,
      maxBetaDelta = maxBetaDelta0, agents = (\<lambda>_. noAgent), agentList = [],
      updateCount = (\<lambda>_. 0), ctrl_paused = False, ctrl_owner = ownr\<rparr>"

text \<open>\<open>registerAgent\<close>: \<open>v\<close> is \<open>msg.value\<close>, \<open>now\<close> is \<open>block.timestamp\<close>.  The whole
  record of the sender is overwritten, \<open>lastUpdateTime\<close> with 0.\<close>

definition registerAgent :: "address \<Rightarrow> nat \<Rightarrow> nat \<Rightarrow> AgentController \<Rightarrow> error + AgentController" where
  "registerAgent sender v now c =
     (if ctrl_paused c then Inl Paused
      else if active (agents c sender) then Inl AlreadyRegistered
      else if v < minBond c then Inl BondTooLow
      else Inr (c\<lparr>agents := (agents c)(sender :=
                     \<lparr>agentAddress = sender, bondAmount = v, tokenBondAmount = 0,
                      registeredAt = now, lastUpdateTime = 0, active = True\<rparr>),
                  agentList := agentList c @ [sender]\<rparr>))"

text \<open>\<open>deregisterAgent\<close>: \<open>callOk\<close> is the result of the call that returns the bond.\<close>

definition deregisterAgent :: "address \<Rightarrow> bool \<Rightarrow> AgentController \<Rightarrow> error + AgentController" where
  "deregisterAgent sender callOk c =
     (if ctrl_paused c then Inl Paused
      else if \<not> active (agents c sender) then Inl NotRegistered
      else
        let info = agents c sender;
            bondToReturn = bondAmount info;
            c1 = c\<lparr>agents := (agents c)(sender := info\<lparr>active := False, bondAmount := 0\<rparr>)\<rparr>
        in if bondToReturn > 0 \<and> \<not> callOk then Inl TransferFailed else Inr c1)"

section \<open>EpochManager\<close>

record Proposal =
  prop_agent :: address
  prop_feeBps :: nat
  prop_curveBeta :: nat
  prop_curveMode :: nat
  prop_timestamp :: nat

record EpochData =
  epochId :: nat
  startTime :: nat
  endTime :: nat
  winner :: address
  winnerScore :: nat
  proposalCount :: nat
  finalized :: bool

record EpochManager =
  epochDuration :: nat
  currentEpochId :: nat
  epochStartTime :: nat
  scorer :: address
  epochs :: "nat \<Rightarrow> EpochData"
  epochProposals :: "nat \<Rightarrow> Proposal list"
  hasProposed :: "nat \<Rightarrow> address \<Rightarrow> bool"
  agentScores :: "nat \<Rightarrow> address \<Rightarrow> nat"
  epochAgents :: "nat \<Rightarrow> address list"
  epochRewardAmount :: nat
  rewardClaimed :: "nat \<Rightarrow> address \<Rightarrow> bool"
  totalScore :: "address \<Rightarrow> nat"
  epochsWon :: "address \<Rightarrow> nat"
  epochsParticipated :: "address \<Rightarrow> nat"

definition noEpoch :: EpochData where
  "noEpoch = \<lparr>epochId = 0, startTime = 0, endTime = 0, winner = 0, winnerScore = 0,
     proposalCount = 0, finalized = False\<rparr>"

text \<open>The constructor opens epoch 1 at the time of deployment.\<close>

definition newEpochManager :: "nat \<Rightarrow> address \<Rightarrow> nat \<Rightarrow> error + EpochManager" where
  "newEpochManager duration scorer0 now =
     bindE (checked_add now duration) (\<lambda>endT.
     Inr \<lparr>epochDuration = duration, currentEpochId = 1, epochStartTime = now,
          scorer = scorer0,
          epochs = (\<lambda>_. noEpoch)(1 := \<lparr>epochId = 1, startTime = now, endTime = endT,
                     winner = 0, winnerScore = 0, proposalCount = 0, finalized = False\<rparr>),
          epochProposals = (\<lambda>_. []), hasProposed = (\<lambda>_ _. False),
          agentScores = (\<lambda>_ _. 0), epochAgents = (\<lambda>_. []), epochRewardAmount = 0,
          rewardClaimed = (\<lambda>_ _. False), totalScore = (\<lambda>_. 0), epochsWon = (\<lambda>_. 0),
          epochsParticipated = (\<lambda>_. 0)\<rparr>)"

definition startNextEpoch :: "nat \<Rightarrow> EpochManager \<Rightarrow> error + EpochManager" where
  "startNextEpoch now e =
     bindE (checked_add (currentEpochId e) 1) (\<lambda>nid.
     bindE (checked_add now (epochDuration e)) (\<lambda>endT.
     Inr (e\<lparr>currentEpochId := nid,
            epochs := (epochs e)(nid :=
              \<lparr>epochId = nid, startTime = now, endTime = endT, winner = 0,
               winnerScore = 0, proposalCount = 0, finalized = False\<rparr>),
            epochStartTime := now\<rparr>)))"

definition checkAndAdvanceEpoch :: "nat \<Rightarrow> EpochManager \<Rightarrow> error + EpochManager" where
  "checkAndAdvanceEpoch now e =
     (let ep = epochs e (currentEpochId e)
      in if now \<ge> endTime ep \<and> \<not> finalized ep \<and> proposalCount ep = 0
         then startNextEpoch now
                (e\<lparr>epochs := (epochs e)(currentEpochId e := ep\<lparr>finalized := True\<rparr>)\<rparr>)
         else Inr e)"

text \<open>The first loop of \<open>finalizeEpoch\<close>: it records the scores and keeps the first
  strictly greatest one; \<open>bestAgent\<close> and \<open>bestScore\<close> start as \<open>address(0)\<close> and 0.\<close>

fun scoreLoop ::
  "nat \<Rightarrow> address list \<Rightarrow> nat list \<Rightarrow> EpochManager \<Rightarrow> address \<Rightarrow> nat
     \<Rightarrow> error + (EpochManager \<times> address \<times> nat)" where
  "scoreLoop eid (a # as) (sc # scs) e bestAgent bestScore =
     bindE (checked_add (totalScore e a) sc) (\<lambda>t.
       let e' = e\<lparr>agentScores := (agentScores e)(eid := (agentScores e eid)(a := sc)),
                  totalScore := (totalScore e)(a := t)\<rparr>
       in if sc > bestScore then scoreLoop eid as scs e' a sc
          else scoreLoop eid as scs e' bestAgent bestScore)"
| "scoreLoop eid _ _ e bestAgent bestScore = Inr (e, bestAgent, bestScore)"

text \<open>The second loop of \<open>finalizeEpoch\<close>: the first stored proposal of \<open>bestAgent\<close> is
  sent to the pool; \<open>self\<close> is the address of the EpochManager, the pool's \<open>msg.sender\<close>.
  When no proposal is \<open>bestAgent\<close>'s the pool is not called.\<close>

fun applyWinner :: "Proposal list \<Rightarrow> address \<Rightarrow> address \<Rightarrow> nat \<Rightarrow> EvoPool \<Rightarrow> error + EvoPool" where
  "applyWinner [] bestAgent self blockNumber p = Inr p"
| "applyWinner (q # qs) bestAgent self blockNumber p =
     (if prop_agent q = bestAgent then
        bindE (toCurveMode (prop_curveMode q)) (\<lambda>m.
        updateParameters self (prop_feeBps q) (prop_curveBeta q) m bestAgent blockNumber p)
      else applyWinner qs bestAgent self blockNumber p)"

section \<open>The linked deployment\<close>

text \<open>
  One pool, one controller and one epoch manager, each holding the address of the others:
  \<open>ctrlAddress\<close> and \<open>emAddress\<close> are the addresses of the controller and of the epoch
  manager, which the pool sees as \<open>msg.sender\<close> when they forward an update.
\<close>

record World =
  pool :: EvoPool
  ctrl :: AgentController
  em :: EpochManager
  ctrlAddress :: address
  emAddress :: address

definition absDiff :: "nat \<Rightarrow> nat \<Rightarrow> nat" where
  "absDiff a b = (if a > b then a - b else b - a)"

text \<open>The cooldown test of \<open>submitParameterUpdate\<close>: the sum is evaluated, and checked,
  only when \<open>lastUpdateTime\<close> is not 0.\<close>

definition cooldownActive :: "AgentInfo \<Rightarrow> nat \<Rightarrow> nat \<Rightarrow> error + bool" where
  "cooldownActive agent cooldown now =
     (if lastUpdateTime agent \<noteq> 0
      then bindE (checked_add (lastUpdateTime agent) cooldown) (\<lambda>t. Inr (now < t))
      else Inr False)"

definition submitParameterUpdate ::
  "address \<Rightarrow> nat \<Rightarrow> nat \<Rightarrow> nat \<Rightarrow> nat \<Rightarrow> nat \<Rightarrow> World \<Rightarrow> error + World" where
  "submitParameterUpdate sender newFeeBps newCurveBeta newCurveMode now blockNumber w =
     (let c = ctrl w; agent = agents c sender
      in if ctrl_paused c then Inl Paused
         else if \<not> active agent then Inl NotRegistered
         else
           bindE (cooldownActive agent (cooldownSeconds c) now) (\<lambda>cooling.
           if cooling then Inl CooldownActive
           else if newFeeBps > MAX_FEE_BPS then Inl FeeTooHigh
           else if newCurveMode > 2 then Inl InvalidCurveMode
           else
             let currentFee = feeBps (pool w);
                 currentBeta = curveBeta (pool w);
                 feeDiff = absDiff newFeeBps currentFee;
                 betaDiff = absDiff newCurveBeta currentBeta
             in if feeDiff > maxFeeDelta c then Inl DeltaExceedsLimit
                else if betaDiff > maxBetaDelta c then Inl DeltaExceedsLimit
                else
                  bindE (checked_add (updateCount c sender) 1) (\<lambda>n.
                  bindE (toCurveMode newCurveMode) (\<lambda>m.
                  bindE (updateParameters (ctrlAddress w) newFeeBps newCurveBeta m sender
                           blockNumber (pool w)) (\<lambda>p.
                  Inr (w\<lparr>pool := p,
                         ctrl := c\<lparr>agents := (agents c)(sender := agent\<lparr>lastUpdateTime := now\<rparr>),
                                   updateCount := (updateCount c)(sender := n)\<rparr>\<rparr>))))))"

definition submitProposal ::
  "address \<Rightarrow> nat \<Rightarrow> nat \<Rightarrow> nat \<Rightarrow> nat \<Rightarrow> World \<Rightarrow> error + World" where
  "submitProposal sender fee beta mode now w =
     bindE (checkAndAdvanceEpoch now (em w)) (\<lambda>e.
       let eid = currentEpochId e
       in if now \<ge> endTime (epochs e eid) then Inl EpochNotActive
          else if hasProposed e eid sender then Inl AlreadyProposed
          else if \<not> active (agents (ctrl w) sender) then Inl AgentNotRegistered
          else if fee > 500 then Inl EmptyRevert
          else if mode > 2 then Inl EmptyRevert
          else
            let p = \<lparr>prop_agent = sender, prop_feeBps = fee, prop_curveBeta = beta,
                     prop_curveMode = mode, prop_timestamp = now\<rparr>
            in bindE (checked_add (proposalCount (epochs e eid)) 1) (\<lambda>pc.
               bindE (checked_add (epochsParticipated e sender) 1) (\<lambda>n.
               Inr (w\<lparr>em := e\<lparr>epochProposals := (epochProposals e)(eid := epochProposals e eid @ [p]),
                               hasProposed := (hasProposed e)(eid := (hasProposed e eid)(sender := True)),
                               epochAgents := (epochAgents e)(eid := epochAgents e eid @ [sender]),
                               epochs := (epochs e)(eid := (epochs e eid)\<lparr>proposalCount := pc\<rparr>),
                               epochsParticipated := (epochsParticipated e)(sender := n)\<rparr>\<rparr>))))"

text \<open>\<open>finalizeEpoch\<close>.  \<open>now\<close> is used by \<open>_startNextEpoch\<close> alone: the function never
  compares it with the epoch's \<open>endTime\<close>.\<close>

definition finalizeEpoch ::
  "address \<Rightarrow> nat \<Rightarrow> address list \<Rightarrow> nat list \<Rightarrow> nat \<Rightarrow> nat \<Rightarrow> World \<Rightarrow> error + World" where
  "finalizeEpoch sender eid agentsArg scores now blockNumber w =
     (let e = em w; ep = epochs e eid
      in if sender \<noteq> scorer e then Inl NotScorer
         else if finalized ep then Inl AlreadyFinalized
         else if proposalCount ep = 0 then Inl NoProposals
         else if length agentsArg \<noteq> length scores then Inl InvalidScoreCount
         else if length agentsArg \<noteq> proposalCount ep then Inl InvalidScoreCount
         else
           bindE (scoreLoop eid agentsArg scores e 0 0) (\<lambda>(e1, bestAgent, bestScore).
           let e2 = e1\<lparr>epochs := (epochs e1)(eid := (epochs e1 eid)
                          \<lparr>winner := bestAgent, winnerScore := bestScore, finalized := True\<rparr>)\<rparr>
           in bindE (checked_add (epochsWon e2 bestAgent) 1) (\<lambda>n.
              let e3 = e2\<lparr>epochsWon := (epochsWon e2)(bestAgent := n)\<rparr>
              in bindE (applyWinner (epochProposals e3 eid) bestAgent (emAddress w)
                          blockNumber (pool w)) (\<lambda>p.
                 bindE (startNextEpoch now e3) (\<lambda>e4.
                 Inr (w\<lparr>pool := p, em := e4\<rparr>))))))"

section \<open>A concrete deployment\<close>

text \<open>
  The deployment of the test suite, at a smaller scale: a pool with fee 30 bps, beta 0.5
  and mode Normal right after its first deposit of 1000000 of each token, whose provider
  (address 8) holds 999000 shares next to the 1000 locked ones; the controller lives at
  address 100 and the epoch manager at 200, the owner and treasury is 7, the scorer is
  9, and the agents 11, 12 and 13 are registered with the minimum bond of 10.  Epoch 1
  runs from 1700000000 to 1700000600.
\<close>

definition demo_pool :: EvoPool where
  "demo_pool = \<lparr>reserve0 = 1000000, reserve1 = 1000000, feeBps = 30, curveBeta = 5000,
     curveMode = Normal, controller = 100, epochManager = 200, tradeCount = 0,
     cumulativeVolume0 = 0, cumulativeVolume1 = 0, price0CumulativeLast = 0,
     price1CumulativeLast = 0, blockTimestampLast = 0, protocolFeeBps = 0,
     treasury = 7, protocolFeeAccum0 = 0, protocolFeeAccum1 = 0, parameterUpdateBlock = 0,
     paused = False, balances = (\<lambda>_. 0)(1 := 1000, 8 := 999000), totalSupply = 1000000,
     owner = 7\<rparr>"

definition newAgent :: "address \<Rightarrow> AgentInfo" where
  "newAgent a = \<lparr>agentAddress = a, bondAmount = 10, tokenBondAmount = 0,
     registeredAt = 1699999000, lastUpdateTime = 0, active = True\<rparr>"

definition demo_ctrl :: AgentController where
  "demo_ctrl = \<lparr>minBond = 10, cooldownSeconds = 300, maxFeeDelta = 50, maxBetaDelta = 2000,
     agents = (\<lambda>_. noAgent)(11 := newAgent 11, 12 := newAgent 12, 13 := newAgent 13),
     agentList = [11, 12, 13], updateCount = (\<lambda>_. 0), ctrl_paused = False, ctrl_owner = 7\<rparr>"

definition demo_em :: EpochManager where
  "demo_em = \<lparr>epochDuration = 600, currentEpochId = 1, epochStartTime = 1700000000,
     scorer = 9,
     epochs = (\<lambda>_. noEpoch)(1 := \<lparr>epochId = 1, startTime = 1700000000, endTime = 1700000600,
                winner = 0, winnerScore = 0, proposalCount = 0, finalized = False\<rparr>),
     epochProposals = (\<lambda>_. []), hasProposed = (\<lambda>_ _. False), agentScores = (\<lambda>_ _. 0),
     epochAgents = (\<lambda>_. []), epochRewardAmount = 0, rewardClaimed = (\<lambda>_ _. False),
     totalScore = (\<lambda>_. 0), epochsWon = (\<lambda>_. 0), epochsParticipated = (\<lambda>_. 0)\<rparr>"

definition demo_world :: World where
  "demo_world = \<lparr>pool = demo_pool, ctrl = demo_ctrl, em = demo_em,
     ctrlAddress = 100, emAddress = 200\<rparr>"

text \<open>
  Variations of the pool, each one call away from the demo pool: other curve modes and
  intensities set through \<open>updateParameters\<close> in block 5, and a protocol fee of 10 percent
  of the swap fee set by the owner.  The states named \<open>_after\<close> are those after the swap
  that the examples run at time 1700000000, the first call that moves the price
  accumulators (by \<open>2^112 * 1700000000\<close>, for a price of 1).
\<close>

definition pool_defensive :: EvoPool where
  "pool_defensive = demo_pool\<lparr>curveMode := Defensive, parameterUpdateBlock := 5\<rparr>"

definition pool_defensive_after :: EvoPool where
  "pool_defensive_after = pool_defensive\<lparr>reserve0 := 1200000, reserve1 := 830988,
     tradeCount := 1, cumulativeVolume0 := 200000,
     price0CumulativeLast := Q112 * 1700000000, price1CumulativeLast := Q112 * 1700000000,
     blockTimestampLast := 1700000000\<rparr>"

definition pool_normal_after :: EvoPool where
  "pool_normal_after = demo_pool\<lparr>reserve0 := 1200000, reserve1 := 833751,
     tradeCount := 1, cumulativeVolume0 := 200000,
     price0CumulativeLast := Q112 * 1700000000, price1CumulativeLast := Q112 * 1700000000,
     blockTimestampLast := 1700000000\<rparr>"

definition pool_defensive_full :: EvoPool where
  "pool_defensive_full = demo_pool\<lparr>curveBeta := 10000, curveMode := Defensive,
     parameterUpdateBlock := 5\<rparr>"

definition pool_adaptive_full :: EvoPool where
  "pool_adaptive_full = demo_pool\<lparr>curveBeta := 10000, curveMode := VolatilityAdaptive,
     parameterUpdateBlock := 5\<rparr>"

definition pool_adaptive :: EvoPool where
  "pool_adaptive = demo_pool\<lparr>curveMode := VolatilityAdaptive, parameterUpdateBlock := 5\<rparr>"

definition pool_protofee :: EvoPool where
  "pool_protofee = demo_pool\<lparr>protocolFeeBps := 1000\<rparr>"

definition pool_protofee_after :: EvoPool where
  "pool_protofee_after = pool_protofee\<lparr>reserve0 := 1009997, reserve1 := 990129,
     tradeCount := 1, cumulativeVolume0 := 10000, protocolFeeAccum0 := 3,
     price0CumulativeLast := Q112 * 1700000000, price1CumulativeLast := Q112 * 1700000000,
     blockTimestampLast := 1700000000\<rparr>"

text \<open>The pool with the protocol fee after that swap, paused by the owner, and what three
  calls make of the paused pool.\<close>

definition pool_paused :: EvoPool where
  "pool_paused = pool_protofee_after\<lparr>paused := True\<rparr>"

definition pool_paused_collected :: EvoPool where
  "pool_paused_collected = pool_paused\<lparr>protocolFeeAccum0 := 0\<rparr>"

definition pool_paused_updated :: EvoPool where
  "pool_paused_updated = pool_paused\<lparr>feeBps := 50, curveBeta := 7000, curveMode := Defensive,
     parameterUpdateBlock := 5\<rparr>"

definition pool_paused_removed :: EvoPool where
  "pool_paused_removed = pool_paused\<lparr>reserve0 := 1008988, reserve1 := 989139,
     balances := (balances pool_paused)(8 := 998000), totalSupply := 999000\<rparr>"

text \<open>The deployment after agent 11 has had the update (40, 5500, Normal) accepted at
  time 1700000000, then after it has deregistered, and after it has registered anew ten
  seconds later.\<close>

definition world_updated :: World where
  "world_updated = demo_world\<lparr>
     pool := demo_pool\<lparr>feeBps := 40, curveBeta := 5500, curveMode := Normal,
                        parameterUpdateBlock := 5\<rparr>,
     ctrl := demo_ctrl\<lparr>agents := (agents demo_ctrl)
                          (11 := (newAgent 11)\<lparr>lastUpdateTime := 1700000000\<rparr>),
                        updateCount := (\<lambda>_. 0)(11 := 1)\<rparr>\<rparr>"

definition ctrl_left :: AgentController where
  "ctrl_left = (ctrl world_updated)\<lparr>agents := (agents (ctrl world_updated))
     (11 := (newAgent 11)\<lparr>lastUpdateTime := 1700000000, active := False, bondAmount := 0\<rparr>)\<rparr>"

definition ctrl_rejoined :: AgentController where
  "ctrl_rejoined = ctrl_left\<lparr>agents := (agents ctrl_left)
       (11 := \<lparr>agentAddress = 11, bondAmount = 10, tokenBondAmount = 0,
               registeredAt = 1700000010, lastUpdateTime = 0, active = True\<rparr>),
     agentList := [11, 12, 13, 11]\<rparr>"

text \<open>Epoch 1 with proposals: by agent 11 alone, by the agents 11, 12 and 13 (the
  proposals of the test suite), and by agent 11 alone with the largest \<open>uint256\<close> as
  \<open>curveBeta\<close>.\<close>

definition proposal_11 :: Proposal where
  "proposal_11 = \<lparr>prop_agent = 11, prop_feeBps = 50, prop_curveBeta = 6000,
     prop_curveMode = 1, prop_timestamp = 1700000010\<rparr>"

definition proposal_12 :: Proposal where
  "proposal_12 = \<lparr>prop_agent = 12, prop_feeBps = 40, prop_curveBeta = 5500,
     prop_curveMode = 0, prop_timestamp = 1700000020\<rparr>"

definition proposal_13 :: Proposal where
  "proposal_13 = \<lparr>prop_agent = 13, prop_feeBps = 45, prop_curveBeta = 7000,
     prop_curveMode = 2, prop_timestamp = 1700000030\<rparr>"

definition proposal_max :: Proposal where
  "proposal_max = \<lparr>prop_agent = 11, prop_feeBps = 50, prop_curveBeta = UINT256_MAX,
     prop_curveMode = 1, prop_timestamp = 1700000010\<rparr>"

definition epoch_one :: "nat \<Rightarrow> EpochData" where
  "epoch_one n = \<lparr>epochId = 1, startTime = 1700000000, endTime = 1700000600, winner = 0,
     winnerScore = 0, proposalCount = n, finalized = False\<rparr>"

definition world_one :: World where
  "world_one = demo_world\<lparr>em := demo_em\<lparr>
     epochs := (epochs demo_em)(1 := epoch_one 1),
     epochProposals := (\<lambda>_. [])(1 := [proposal_11]),
     hasProposed := (\<lambda>_ _. False)(1 := (\<lambda>_. False)(11 := True)),
     epochAgents := (\<lambda>_. [])(1 := [11]),
     epochsParticipated := (\<lambda>_. 0)(11 := 1)\<rparr>\<rparr>"

definition world_three :: World where
  "world_three = demo_world\<lparr>em := demo_em\<lparr>
     epochs := (epochs demo_em)(1 := epoch_one 3),
     epochProposals := (\<lambda>_. [])(1 := [proposal_11, proposal_12, proposal_13]),
     hasProposed := (\<lambda>_ _. False)(1 := (\<lambda>_. False)(11 := True, 12 := True, 13 := True)),
     epochAgents := (\<lambda>_. [])(1 := [11, 12, 13]),
     epochsParticipated := (\<lambda>_. 0)(11 := 1, 12 := 1, 13 := 1)\<rparr>\<rparr>"

definition world_max :: World where
  "world_max = demo_world\<lparr>em := demo_em\<lparr>
     epochs := (epochs demo_em)(1 := epoch_one 1),
     epochProposals := (\<lambda>_. [])(1 := [proposal_max]),
     hasProposed := (\<lambda>_ _. False)(1 := (\<lambda>_. False)(11 := True)),
     epochAgents := (\<lambda>_. [])(1 := [11]),
     epochsParticipated := (\<lambda>_. 0)(11 := 1)\<rparr>\<rparr>"

text \<open>Calls of the scorer (address 9): on the three proposals 100 seconds into the epoch
  and 100 seconds after its end, and on the single proposal with a score of 0 and with
  an address that never proposed.\<close>

definition early_finalize :: "error + World" where
  "early_finalize = finalizeEpoch 9 1 [11, 12, 13] [5000, 8000, 6000] 1700000100 7 world_three"


definition zero_score_finalize :: "error + World" where
  "zero_score_finalize = finalizeEpoch 9 1 [11] [0] 1700000700 7 world_one"

definition stranger_finalize :: "error + World" where
  "stranger_finalize = finalizeEpoch 9 1 [99] [7000] 1700000700 7 world_one"

definition max_finalize :: "error + World" where
  "max_finalize = finalizeEpoch 9 1 [11] [7000] 1700000700 7 world_max"


section \<open>Auxiliary facts\<close>

lemma bindE_Inr_iff: "bindE m f = Inr r \<longleftrightarrow> (\<exists>a. m = Inr a \<and> f a = Inr r)"
  by (cases m) (simp_all add: bindE_def)

lemma bindE_Inr [simp]: "bindE (Inr a) f = f a"
  by (simp add: bindE_def)

lemma bindE_Inl [simp]: "bindE (Inl e) f = Inl e"
  by (simp add: bindE_def)

lemma checked_add_Inr: "checked_add a b = Inr c \<longleftrightarrow> (a + b \<le> UINT256_MAX \<and> c = a + b)"
  by (auto simp: checked_add_def)

lemma checked_sub_Inr: "checked_sub a b = Inr c \<longleftrightarrow> (b \<le> a \<and> c = a - b)"
  by (auto simp: checked_sub_def)

lemma checked_mul_Inr: "checked_mul a b = Inr c \<longleftrightarrow> (a * b \<le> UINT256_MAX \<and> c = a * b)"
  by (auto simp: checked_mul_def)

lemma checked_div_Inr: "checked_div a b = Inr c \<longleftrightarrow> (b \<noteq> 0 \<and> c = a div b)"
  by (auto simp: checked_div_def)

lemmas checked_Inr = checked_add_Inr checked_sub_Inr checked_mul_Inr checked_div_Inr

lemmas arith_defs = checked_add_def checked_sub_def checked_mul_def checked_div_def
  UINT256_MAX_def BETA_SCALE_def WAD_def Q112_def MAX_FEE_BPS_def MINIMUM_LIQUIDITY_def

lemmas side_defs = reserveIn_def reserveOut_def feeAccumIn_def feeAccumOut_def

section \<open>The pool\<close>

subsection \<open>What a successful swap consists of\<close>

lemma updateTWAP_fields:
  "reserve0 (updateTWAP now s) = reserve0 s"
  "reserve1 (updateTWAP now s) = reserve1 s"
  "feeBps (updateTWAP now s) = feeBps s"
  "curveBeta (updateTWAP now s) = curveBeta s"
  "curveMode (updateTWAP now s) = curveMode s"
  "protocolFeeBps (updateTWAP now s) = protocolFeeBps s"
  "protocolFeeAccum0 (updateTWAP now s) = protocolFeeAccum0 s"
  "protocolFeeAccum1 (updateTWAP now s) = protocolFeeAccum1 s"
  "paused (updateTWAP now s) = paused s"
  "balances (updateTWAP now s) = balances s"
  "totalSupply (updateTWAP now s) = totalSupply s"
  by (simp_all add: updateTWAP_def Let_def)

lemma updateTWAP_sides:
  "reserveIn z (updateTWAP now s) = reserveIn z s"
  "reserveOut z (updateTWAP now s) = reserveOut z s"
  "feeAccumIn z (updateTWAP now s) = feeAccumIn z s"
  "feeAccumOut z (updateTWAP now s) = feeAccumOut z s"
  by (simp_all add: side_defs updateTWAP_fields)

lemma applyCurve_updateTWAP: "applyCurve (updateTWAP now s) a z = applyCurve s a z"
  by (simp add: applyCurve_def Let_def updateTWAP_fields updateTWAP_sides)

lemma protocolFeeOf_updateTWAP: "protocolFeeOf (updateTWAP now s) f = protocolFeeOf s f"
  by (simp add: protocolFeeOf_def updateTWAP_fields)

lemma updateReserves_Inr:
  assumes "updateReserves z actualIn amountOut pf s = Inr s'"
  shows "reserveIn z s' + pf = reserveIn z s + actualIn"
    and "reserveOut z s' + amountOut = reserveOut z s"
    and "feeAccumIn z s' = feeAccumIn z s + pf"
    and "feeAccumOut z s' = feeAccumOut z s"
    and "paused s' = paused s"
  using assms
  by (auto simp: updateReserves_def bindE_Inr_iff checked_Inr side_defs split: if_splits)

lemma trackStats_Inr:
  assumes "trackStats z actualIn s = Inr s'"
  shows "reserveIn z s' = reserveIn z s"
    and "reserveOut z s' = reserveOut z s"
    and "feeAccumIn z s' = feeAccumIn z s"
    and "feeAccumOut z s' = feeAccumOut z s"
    and "paused s' = paused s"
  using assms
  by (auto simp: trackStats_def bindE_Inr_iff checked_Inr side_defs split: if_splits)

lemma swap_Inr:
  assumes "swap z amountIn minOut now (Some actualIn) pushOk s = Inr (out, s')"
  obtains eff pf s2 where
    "applyCurve s actualIn z = Inr eff"
    "eff * feeBps s \<le> UINT256_MAX"
    "eff * feeBps s div 10000 \<le> eff"
    "protocolFeeOf s (eff * feeBps s div 10000) = Inr pf"
    "reserveIn z s + (eff - eff * feeBps s div 10000) \<noteq> 0"
    "out = reserveOut z s * (eff - eff * feeBps s div 10000)
             div (reserveIn z s + (eff - eff * feeBps s div 10000))"
    "updateReserves z actualIn out pf (updateTWAP now s) = Inr s2"
    "trackStats z actualIn s2 = Inr s'"
    "reserve0 s \<noteq> 0" "reserve1 s \<noteq> 0"
  using assms
  unfolding swap_def Let_def
  by (auto simp: bindE_Inr_iff checked_Inr applyCurve_updateTWAP protocolFeeOf_updateTWAP
        updateTWAP_fields updateTWAP_sides split: if_splits)

subsection \<open>How the demo pool comes about\<close>

lemma sqrt_demo: "sqrt_u 1000000000000 = Inr 1000000"
  by (simp add: sqrt_u_def UINT256_MAX_def)

lemma demo_pool_reached:
  "bindE (newEvoPool 1001 1002 30 5000 7) (\<lambda>p0.
   bindE (setController 7 100 p0) (\<lambda>p1.
   bindE (setEpochManager 7 200 p1) (\<lambda>p2.
   addLiquidity 8 1000000 1000000 1699990000 (Some (1000000, 1000000)) p2)))
     = Inr (999000, demo_pool)"
  by (simp add: newEvoPool_def setController_def setEpochManager_def addLiquidity_def
        updateTWAP_def mint_def sqrt_demo Let_def arith_defs demo_pool_def)

lemma pool_variants_reached:
  "updateParameters 100 30 5000 Defensive 11 5 demo_pool = Inr pool_defensive"
  "updateParameters 100 30 5000 VolatilityAdaptive 11 5 demo_pool = Inr pool_adaptive"
  "updateParameters 200 30 10000 Defensive 11 5 demo_pool = Inr pool_defensive_full"
  "updateParameters 200 30 10000 VolatilityAdaptive 11 5 demo_pool = Inr pool_adaptive_full"
  "setProtocolFee 7 1000 demo_pool = Inr pool_protofee"
  "pause 7 pool_protofee_after = Inr pool_paused"
  by (simp_all add: updateParameters_def setProtocolFee_def pause_def MAX_FEE_BPS_def
        MAX_PROTOCOL_FEE_BPS_def pool_defensive_def pool_adaptive_def pool_defensive_full_def
        pool_adaptive_full_def pool_protofee_def pool_paused_def pool_protofee_after_def
        demo_pool_def)

subsection \<open>Concrete swaps\<close>

lemmas swap_defs = swap_def applyCurve_def protocolFeeOf_def updateReserves_def
  trackStats_def updateTWAP_def Let_def

lemma swap_defensive_eval:
  "swap True 200000 0 1700000000 (Some 200000) True pool_defensive
     = Inr (169012, pool_defensive_after)"
  by (simp add: swap_defs side_defs arith_defs pool_defensive_after_def pool_defensive_def
        demo_pool_def)

lemma swap_normal_eval:
  "swap True 200000 0 1700000000 (Some 200000) True demo_pool = Inr (166249, pool_normal_after)"
  by (simp add: swap_defs side_defs arith_defs pool_normal_after_def demo_pool_def)


subsection \<open>The constant product across a swap\<close>

text \<open>
  In Normal mode the priced input is the received input, and the product of the reserves
  does not fall across a swap as long as the protocol takes no more than the whole swap
  fee (\<open>setProtocolFee\<close> admits at most 2000 bps).
\<close>

lemma product_step:
  fixes rIn rOut x :: nat
  shows "rIn * rOut \<le> (rIn + x) * (rOut - rOut * x div (rIn + x))"
proof -
  let ?out = "rOut * x div (rIn + x)"
  have "?out * (rIn + x) \<le> rOut * x"
    by simp
  then have 1: "(rIn + x) * ?out \<le> rOut * x"
    by (simp add: mult.commute)
  have 2: "(rIn + x) * rOut - rOut * x \<le> (rIn + x) * rOut - (rIn + x) * ?out"
    using 1 by (rule diff_le_mono2)
  have 3: "(rIn + x) * rOut - rOut * x = rIn * rOut"
    by (simp add: algebra_simps)
  have 4: "(rIn + x) * (rOut - ?out) = (rIn + x) * rOut - (rIn + x) * ?out"
    by (simp add: diff_mult_distrib2)
  from 2 3 4 show ?thesis by simp
qed

lemma normal_swap_product_nondecreasing:
  assumes ok: "swap z amountIn minOut now (Some actualIn) pushOk s = Inr (out, s')"
    and mode: "curveMode s = Normal"
    and pf: "protocolFeeBps s \<le> 10000"
  shows "reserve0 s * reserve1 s \<le> reserve0 s' * reserve1 s'"
proof -
  from ok obtain eff pf s2 where
    c: "applyCurve s actualIn z = Inr eff"
    and fee_le: "eff * feeBps s div 10000 \<le> eff"
    and p: "protocolFeeOf s (eff * feeBps s div 10000) = Inr pf"
    and out: "out = reserveOut z s * (eff - eff * feeBps s div 10000)
             div (reserveIn z s + (eff - eff * feeBps s div 10000))"
    and u: "updateReserves z actualIn out pf (updateTWAP now s) = Inr s2"
    and t: "trackStats z actualIn s2 = Inr s'"
    by (rule swap_Inr)
  from c mode have eff: "eff = actualIn" by (simp add: applyCurve_def)
  define fee where "fee = actualIn * feeBps s div 10000"
  define x where "x = actualIn - fee"
  have pf_le: "pf \<le> fee"
  proof -
    have "fee * protocolFeeBps s div 10000 \<le> fee * 10000 div 10000"
      using pf by (intro div_le_mono mult_le_mono2)
    then show ?thesis
      using p by (auto simp: protocolFeeOf_def bindE_Inr_iff checked_Inr eff fee_def
          split: if_splits)
  qed
  have fee_le': "fee \<le> actualIn" using fee_le by (simp add: eff fee_def)
  have rin: "reserveIn z s' + pf = reserveIn z s + actualIn"
    using updateReserves_Inr(1)[OF u] trackStats_Inr(1)[OF t] by (simp add: updateTWAP_sides)
  have rout: "reserveOut z s' + out = reserveOut z s"
    using updateReserves_Inr(2)[OF u] trackStats_Inr(2)[OF t] by (simp add: updateTWAP_sides)
  have out': "out = reserveOut z s * x div (reserveIn z s + x)"
    using out by (simp add: eff x_def fee_def)
  have "reserveIn z s + x \<le> reserveIn z s'"
    using rin pf_le fee_le' by (simp add: x_def)
  moreover have "reserveOut z s' = reserveOut z s - reserveOut z s * x div (reserveIn z s + x)"
    using rout out' by simp
  ultimately have "(reserveIn z s + x) * (reserveOut z s - reserveOut z s * x div (reserveIn z s + x))
      \<le> reserveIn z s' * reserveOut z s'"
    by (simp add: mult_le_mono1)
  with product_step[of "reserveIn z s" "reserveOut z s" x]
  have "reserveIn z s * reserveOut z s \<le> reserveIn z s' * reserveOut z s'"
    by (rule le_trans)
  then show ?thesis
    by (cases z) (simp_all add: side_defs mult.commute)
qed

text \<open>
  Claim C1: every successful swap on positive reserves leaves \<open>reserve0 * reserve1\<close> at
  least as large as before, in every curve mode.

  The code breaks this in the Defensive mode.  On the demo pool in Defensive mode
  (reserves 1000000 each, fee 30 bps, beta 0.5) a swap of 200000 of token0 is priced as
  if 204000 had come in: the so-called penalty is added to the priced input, so the
  trader receives 169012 where the same trade in Normal mode receives 166249, while the
  input reserve grows by the 200000 actually received.  The product of the reserves
  falls from 1000000 * 1000000 to 1200000 * 830988.
\<close>

theorem defensive_swap_lowers_product:
  "swap True 200000 0 1700000000 (Some 200000) True pool_defensive
     = Inr (169012, pool_defensive_after)
 \<and> 0 < reserve0 pool_defensive \<and> 0 < reserve1 pool_defensive
 \<and> reserve0 pool_defensive_after * reserve1 pool_defensive_after
     < reserve0 pool_defensive * reserve1 pool_defensive
 \<and> swap True 200000 0 1700000000 (Some 200000) True demo_pool = Inr (166249, pool_normal_after)"
  by (simp add: swap_defensive_eval swap_normal_eval)
     (simp add: pool_defensive_after_def pool_defensive_def demo_pool_def)

subsection \<open>The curve\<close>

text \<open>
  In VolatilityAdaptive mode a trade with \<open>beta * w < 1\<close>, that is with
  \<open>curveBeta * amountIn < 10000 * reserveIn\<close>, is priced as in Normal mode: the penalty is
  the whole part of \<open>beta * w\<close>.
\<close>

lemma adaptive_no_penalty_below_one:
  assumes mode: "curveMode s = VolatilityAdaptive"
    and r: "reserveIn z s \<noteq> 0"
    and a: "amountIn * 10000 \<le> UINT256_MAX"
    and small: "curveBeta s * amountIn < 10000 * reserveIn z s"
  shows "applyCurve s amountIn z = Inr amountIn"
proof -
  define ratio where "ratio = amountIn * 10000 div reserveIn z s"
  have "ratio * reserveIn z s \<le> amountIn * 10000"
    by (simp add: ratio_def)
  then have "curveBeta s * (ratio * reserveIn z s) \<le> curveBeta s * (amountIn * 10000)"
    by (rule mult_le_mono2)
  also have "\<dots> = (curveBeta s * amountIn) * 10000"
    by (simp add: mult.assoc)
  also have "\<dots> < (10000 * reserveIn z s) * 10000"
    using small by (simp add: mult.commute)
  finally have "(curveBeta s * ratio) * reserveIn z s < 100000000 * reserveIn z s"
    by (simp add: mult.assoc mult.commute mult.left_commute)
  then have lt: "curveBeta s * ratio < 100000000"
    by simp
  then have le: "curveBeta s * ratio \<le> UINT256_MAX"
    by (simp add: UINT256_MAX_def)
  have a': "amountIn \<le> UINT256_MAX"
    using a by simp
  have sc: "(100000000::nat) \<le> UINT256_MAX"
    by (simp add: UINT256_MAX_def)
  show ?thesis
    using mode r a a' lt le sc
    by (simp add: applyCurve_def Let_def checked_mul_def checked_div_def checked_add_def
          BETA_SCALE_def ratio_def[symmetric])
qed

text \<open>
  Claim C2: up to rounding, \<open>_applyCurve\<close> returns \<open>amountIn\<close> in Normal mode,
  \<open>amountIn * (1 + beta * w^2)\<close> in Defensive mode and \<open>amountIn * (1 + beta * w)\<close> in
  VolatilityAdaptive mode, with \<open>beta = curveBeta / 10000\<close> and \<open>w = amountIn / reserveIn\<close>.

  The VolatilityAdaptive branch misses this by a factor of 10000: it divides
  \<open>curveBeta * ratio\<close> by \<open>BETA_SCALE * BETA_SCALE\<close>, which leaves the whole part of
  \<open>beta * w\<close>, and then divides by \<open>BETA_SCALE\<close> once more.  With beta = 1.0 and a trade
  of half the reserve (w = 0.5) the formula gives 750000 and the code 500000, the input
  unchanged; the Defensive branch at the same input gives 625000, which is its formula
  \<open>500000 * (1 + 1.0 * 0.25)\<close>.  With the parameters of the test suite (beta 0.5, w =
  0.05) the formula gives 51250 and the code 50000.  The parameters are set through
  \<open>updateParameters\<close> on the demo pool.
\<close>

theorem adaptive_curve_drops_penalty:
  "applyCurve pool_adaptive_full 500000 True = Inr 500000
 \<and> applyCurve pool_defensive_full 500000 True = Inr 625000
 \<and> applyCurve pool_adaptive 50000 True = Inr 50000"
  by (simp add: applyCurve_def side_defs arith_defs pool_adaptive_full_def pool_adaptive_def
        pool_defensive_full_def demo_pool_def)

subsection \<open>Reserve accounting of a swap\<close>




subsection \<open>The pause flag\<close>

lemma paused_evals:
  "collectProtocolFees True pool_paused = Inr pool_paused_collected"
  "updateParameters 100 50 7000 Defensive 11 5 pool_paused = Inr pool_paused_updated"
  "removeLiquidity 8 1000 1700000000 True pool_paused = Inr ((1009, 990), pool_paused_removed)"
  by (simp_all add: collectProtocolFees_def updateParameters_def removeLiquidity_def burn_def
        updateTWAP_def Let_def arith_defs pool_paused_def pool_paused_collected_def
        pool_paused_updated_def pool_paused_removed_def pool_protofee_after_def
        pool_protofee_def demo_pool_def)

lemma removeLiquidity_paused:
  assumes "removeLiquidity sender l now ok s = Inr (r, s')"
  shows "paused s' = paused s"
  using assms unfolding removeLiquidity_def Let_def burn_def
  by (auto simp: bindE_Inr_iff checked_Inr updateTWAP_fields split: if_splits)

lemma updateParameters_paused:
  assumes "updateParameters c f b m ag blk s = Inr s'"
  shows "paused s' = paused s"
  using assms by (auto simp: updateParameters_def split: if_splits)

lemma collectProtocolFees_paused:
  assumes "collectProtocolFees ok s = Inr s'"
  shows "paused s' = paused s"
  using assms by (auto simp: collectProtocolFees_def Let_def split: if_splits)

text \<open>
  Claim C6, as stated: while the pool is paused, swap, addLiquidity, removeLiquidity,
  updateParameters and collectProtocolFees are all rejected.  Only the first two carry
  the \<open>whenNotPaused\<close> modifier: on the paused demo pool the treasury collects the 3 units
  of protocol fee, the controller (address 100) sets new parameters, and the liquidity
  provider (address 8) burns 1000 shares for 1009 of token0 and 990 of token1.
\<close>

theorem paused_pool_counterexample:
  "paused pool_paused
 \<and> collectProtocolFees True pool_paused = Inr pool_paused_collected
 \<and> protocolFeeAccum0 pool_paused = 3 \<and> protocolFeeAccum0 pool_paused_collected = 0
 \<and> updateParameters 100 50 7000 Defensive 11 5 pool_paused = Inr pool_paused_updated
 \<and> feeBps pool_paused = 30 \<and> feeBps pool_paused_updated = 50
 \<and> removeLiquidity 8 1000 1700000000 True pool_paused = Inr ((1009, 990), pool_paused_removed)
 \<and> reserve0 pool_paused = 1009997 \<and> reserve0 pool_paused_removed = 1008988"
  by (simp add: paused_evals)
     (simp add: pool_paused_def pool_paused_collected_def pool_paused_updated_def
        pool_paused_removed_def pool_protofee_after_def pool_protofee_def demo_pool_def)

text \<open>
  Claim C6, amended: while the pause flag is set, \<open>swap\<close> and \<open>addLiquidity\<close> are rejected
  with \<open>PoolPaused\<close>, whatever their arguments, and change nothing; \<open>removeLiquidity\<close>,
  \<open>updateParameters\<close> and \<open>collectProtocolFees\<close> are not gated by the flag and leave it
  set; the owner's \<open>unpause\<close> lifts it.
\<close>

theorem pause_gate:
  assumes "paused s"
  shows "swap z amountIn minOut now received pushOk s = Inl PoolPaused
       \<and> addLiquidity sender amount0 amount1 now' received' s = Inl PoolPaused
       \<and> (removeLiquidity lp l now'' ok s = Inr (r, s1) \<longrightarrow> paused s1)
       \<and> (updateParameters c f b m ag blk s = Inr s2 \<longrightarrow> paused s2)
       \<and> (collectProtocolFees ok' s = Inr s3 \<longrightarrow> paused s3)
       \<and> unpause (owner s) s = Inr (s\<lparr>paused := False\<rparr>)"
  using assms
  by (auto simp: swap_def addLiquidity_def unpause_def removeLiquidity_paused
        updateParameters_paused collectProtocolFees_paused)

theorem pause_gate_witness:
  "paused pool_paused
 \<and> swap True 10000 0 1700000000 (Some 10000) True pool_paused = Inl PoolPaused
 \<and> addLiquidity 8 1000 1000 1700000000 (Some (1000, 1000)) pool_paused = Inl PoolPaused
 \<and> removeLiquidity 8 1000 1700000000 True pool_paused = Inr ((1009, 990), pool_paused_removed)
 \<and> paused pool_paused_removed
 \<and> updateParameters 100 50 7000 Defensive 11 5 pool_paused = Inr pool_paused_updated
 \<and> paused pool_paused_updated
 \<and> collectProtocolFees True pool_paused = Inr pool_paused_collected
 \<and> paused pool_paused_collected
 \<and> unpause (owner pool_paused) pool_paused = Inr (pool_paused\<lparr>paused := False\<rparr>)"
proof -
  have p: "paused pool_paused"
    by (simp add: pool_paused_def)
  from pause_gate[OF p, of True 10000 0 1700000000 "Some 10000" True
      8 1000 1000 1700000000 "Some (1000, 1000)"
      8 1000 1700000000 True "(1009, 990)" pool_paused_removed
      100 50 7000 Defensive 11 5 pool_paused_updated
      True pool_paused_collected]
  show ?thesis
    using p by (simp add: paused_evals)
qed

section \<open>The controller\<close>

lemma cooldown_elapsed:
  assumes "lastUpdateTime ag = 0 \<or> lastUpdateTime ag + cd \<le> now" and "now \<le> UINT256_MAX"
  shows "cooldownActive ag cd now = Inr False"
  using assms by (auto simp: cooldownActive_def checked_add_def)

lemma toCurveMode_ok: "m \<le> 2 \<Longrightarrow> \<exists>cm. toCurveMode m = Inr cm \<and> curveModeIndex cm = m"
  by (auto simp: toCurveMode_def)

lemma curveModeIndex_le: "curveModeIndex cm \<le> 2"
  by (cases cm) simp_all

lemma updateParameters_ok:
  assumes "sender = controller p \<or> sender = epochManager p" and "fee \<le> MAX_FEE_BPS"
  shows "updateParameters sender fee beta cm ag blk p
          = Inr (p\<lparr>feeBps := fee, curveBeta := beta, curveMode := cm,
                   parameterUpdateBlock := blk\<rparr>)"
  using assms curveModeIndex_le[of cm] by (auto simp: updateParameters_def)

lemma updateParameters_Inr:
  assumes "updateParameters sender fee beta cm ag blk p = Inr p'"
  shows "p' = p\<lparr>feeBps := fee, curveBeta := beta, curveMode := cm, parameterUpdateBlock := blk\<rparr>"
    and "sender = controller p \<or> sender = epochManager p"
    and "fee \<le> MAX_FEE_BPS"
  using assms by (auto simp: updateParameters_def split: if_splits)

lemma submit_ok:
  assumes "\<not> ctrl_paused (ctrl w)" and "active (agents (ctrl w) a)"
    and "cooldownActive (agents (ctrl w) a) (cooldownSeconds (ctrl w)) now = Inr False"
    and "newFee \<le> MAX_FEE_BPS" and "toCurveMode newMode = Inr cm"
    and "absDiff newFee (feeBps (pool w)) \<le> maxFeeDelta (ctrl w)"
    and "absDiff newBeta (curveBeta (pool w)) \<le> maxBetaDelta (ctrl w)"
    and "updateCount (ctrl w) a < UINT256_MAX"
    and "ctrlAddress w = controller (pool w) \<or> ctrlAddress w = epochManager (pool w)"
  shows "submitParameterUpdate a newFee newBeta newMode now blk w =
           Inr (w\<lparr>pool := (pool w)\<lparr>feeBps := newFee, curveBeta := newBeta, curveMode := cm,
                                    parameterUpdateBlock := blk\<rparr>,
                  ctrl := (ctrl w)\<lparr>agents := (agents (ctrl w))
                                       (a := (agents (ctrl w) a)\<lparr>lastUpdateTime := now\<rparr>),
                                    updateCount := (updateCount (ctrl w))
                                       (a := Suc (updateCount (ctrl w) a))\<rparr>\<rparr>)"
proof -
  have m: "newMode \<le> 2"
    using assms(5) by (auto simp: toCurveMode_def split: if_splits)
  have ca: "checked_add (updateCount (ctrl w) a) (Suc 0) = Inr (Suc (updateCount (ctrl w) a))"
    using assms(8) by (simp add: checked_add_def)
  show ?thesis
    using assms(1,2,4,6,7) m
    by (simp add: submitParameterUpdate_def Let_def assms(3,5) ca
          updateParameters_ok[OF assms(9) assms(4)])
qed

lemma submit_delta_rejected:
  assumes "\<not> ctrl_paused (ctrl w)" and "active (agents (ctrl w) a)"
    and "cooldownActive (agents (ctrl w) a) (cooldownSeconds (ctrl w)) now = Inr False"
    and "newFee \<le> MAX_FEE_BPS" and "newMode \<le> 2"
    and "absDiff newFee (feeBps (pool w)) > maxFeeDelta (ctrl w)
         \<or> absDiff newBeta (curveBeta (pool w)) > maxBetaDelta (ctrl w)"
  shows "submitParameterUpdate a newFee newBeta newMode now blk w = Inl DeltaExceedsLimit"
  using assms by (auto simp: submitParameterUpdate_def Let_def)

lemma submit_Inr:
  assumes "submitParameterUpdate a newFee newBeta newMode now blk w = Inr w'"
  obtains cm where
    "toCurveMode newMode = Inr cm"
    "w' = w\<lparr>pool := (pool w)\<lparr>feeBps := newFee, curveBeta := newBeta, curveMode := cm,
                                    parameterUpdateBlock := blk\<rparr>,
              ctrl := (ctrl w)\<lparr>agents := (agents (ctrl w))
                                   (a := (agents (ctrl w) a)\<lparr>lastUpdateTime := now\<rparr>),
                                updateCount := (updateCount (ctrl w))
                                   (a := Suc (updateCount (ctrl w) a))\<rparr>\<rparr>"
    "\<not> ctrl_paused (ctrl w)" "active (agents (ctrl w) a)"
    "ctrlAddress w = controller (pool w) \<or> ctrlAddress w = epochManager (pool w)"
    "Suc (updateCount (ctrl w) a) \<le> UINT256_MAX"
proof -
  from assms obtain cm p n where
    a: "\<not> ctrl_paused (ctrl w)" "active (agents (ctrl w) a)"
    and n: "checked_add (updateCount (ctrl w) a) 1 = Inr n"
    and cm: "toCurveMode newMode = Inr cm"
    and p: "updateParameters (ctrlAddress w) newFee newBeta cm a blk (pool w) = Inr p"
    and w': "w' = w\<lparr>pool := p,
              ctrl := (ctrl w)\<lparr>agents := (agents (ctrl w))
                                   (a := (agents (ctrl w) a)\<lparr>lastUpdateTime := now\<rparr>),
                                updateCount := (updateCount (ctrl w))(a := n)\<rparr>\<rparr>"
    unfolding submitParameterUpdate_def Let_def
    by (auto simp: bindE_Inr_iff split: if_splits)
  from n have n': "n = Suc (updateCount (ctrl w) a)" "Suc (updateCount (ctrl w) a) \<le> UINT256_MAX"
    by (auto simp: checked_add_def split: if_splits)
  from updateParameters_Inr[OF p] cm w' n' a that show thesis by blast
qed

lemma registerAgent_Inr:
  assumes "registerAgent a v t c = Inr c'"
  shows "c' = c\<lparr>agents := (agents c)(a :=
                     \<lparr>agentAddress = a, bondAmount = v, tokenBondAmount = 0,
                      registeredAt = t, lastUpdateTime = 0, active = True\<rparr>),
                  agentList := agentList c @ [a]\<rparr>"
    and "\<not> ctrl_paused c"
  using assms by (auto simp: registerAgent_def split: if_splits)

lemma deregisterAgent_Inr:
  assumes "deregisterAgent a ok c = Inr c'"
  shows "c' = c\<lparr>agents := (agents c)(a := (agents c a)\<lparr>active := False, bondAmount := 0\<rparr>)\<rparr>"
  using assms by (auto simp: deregisterAgent_def Let_def split: if_splits)

lemma demo_world_facts:
  "\<not> ctrl_paused (ctrl demo_world)"
  "active (agents (ctrl demo_world) 11)"
  "lastUpdateTime (agents (ctrl demo_world) 11) = 0"
  "feeBps (pool demo_world) = 30"
  "curveBeta (pool demo_world) = 5000"
  "maxFeeDelta (ctrl demo_world) = 50"
  "maxBetaDelta (ctrl demo_world) = 2000"
  "cooldownSeconds (ctrl demo_world) = 300"
  "updateCount (ctrl demo_world) 11 = 0"
  "ctrlAddress demo_world = controller (pool demo_world)"
  "emAddress demo_world = epochManager (pool demo_world)"
  by (simp_all add: demo_world_def demo_ctrl_def demo_pool_def newAgent_def)

lemma demo_ctrl_reached:
  "bindE (registerAgent 11 10 1699999000 (newAgentController 10 300 50 2000 7)) (\<lambda>c1.
   bindE (registerAgent 12 10 1699999000 c1) (registerAgent 13 10 1699999000)) = Inr demo_ctrl"
  by (simp add: registerAgent_def newAgentController_def demo_ctrl_def newAgent_def noAgent_def)

text \<open>
  Claim C7: for an active agent of an unpaused controller, past its cooldown, proposing a
  fee within the absolute cap and a valid mode: a fee at distance \<open>maxFeeDelta + 1\<close> from
  the pool's current fee is rejected with \<open>DeltaExceedsLimit\<close> (an \<open>Inl\<close> result: nothing
  changes), and so is a beta at distance \<open>maxBetaDelta + 1\<close> from the pool's current beta;
  a proposal at distance exactly \<open>maxFeeDelta\<close> (respectively \<open>maxBetaDelta\<close>) whose other
  parameter is within its own bound succeeds and reaches the pool.  Success presupposes
  what the claim leaves implicit: the pool accepts the controller as caller and the
  agent's update counter is not at its maximum.
\<close>

theorem delta_bound:
  assumes "\<not> ctrl_paused (ctrl w)" and "active (agents (ctrl w) a)"
    and "lastUpdateTime (agents (ctrl w) a) = 0
         \<or> lastUpdateTime (agents (ctrl w) a) + cooldownSeconds (ctrl w) \<le> now"
    and "now \<le> UINT256_MAX"
    and "newFee \<le> MAX_FEE_BPS" and "newMode \<le> 2"
  shows "(absDiff newFee (feeBps (pool w)) = maxFeeDelta (ctrl w) + 1 \<longrightarrow>
            submitParameterUpdate a newFee newBeta newMode now blk w = Inl DeltaExceedsLimit)
       \<and> (absDiff newBeta (curveBeta (pool w)) = maxBetaDelta (ctrl w) + 1 \<longrightarrow>
            submitParameterUpdate a newFee newBeta newMode now blk w = Inl DeltaExceedsLimit)
       \<and> ((absDiff newFee (feeBps (pool w)) = maxFeeDelta (ctrl w)
              \<and> absDiff newBeta (curveBeta (pool w)) \<le> maxBetaDelta (ctrl w)
            \<or> absDiff newFee (feeBps (pool w)) \<le> maxFeeDelta (ctrl w)
              \<and> absDiff newBeta (curveBeta (pool w)) = maxBetaDelta (ctrl w))
           \<and> updateCount (ctrl w) a < UINT256_MAX
           \<and> (ctrlAddress w = controller (pool w) \<or> ctrlAddress w = epochManager (pool w)) \<longrightarrow>
            (\<exists>w'. submitParameterUpdate a newFee newBeta newMode now blk w = Inr w'
                 \<and> feeBps (pool w') = newFee \<and> curveBeta (pool w') = newBeta
                 \<and> toCurveMode newMode = Inr (curveMode (pool w'))
                 \<and> lastUpdateTime (agents (ctrl w') a) = now))"
proof -
  have cd: "cooldownActive (agents (ctrl w) a) (cooldownSeconds (ctrl w)) now = Inr False"
    using assms(3,4) by (rule cooldown_elapsed)
  note rej = submit_delta_rejected[OF assms(1,2) cd assms(5,6)]
  have r1: "absDiff newFee (feeBps (pool w)) = maxFeeDelta (ctrl w) + 1 \<longrightarrow>
            submitParameterUpdate a newFee newBeta newMode now blk w = Inl DeltaExceedsLimit"
    by (simp add: rej)
  have r2: "absDiff newBeta (curveBeta (pool w)) = maxBetaDelta (ctrl w) + 1 \<longrightarrow>
            submitParameterUpdate a newFee newBeta newMode now blk w = Inl DeltaExceedsLimit"
    by (simp add: rej)
  have r3: "\<exists>w'. submitParameterUpdate a newFee newBeta newMode now blk w = Inr w'
                 \<and> feeBps (pool w') = newFee \<and> curveBeta (pool w') = newBeta
                 \<and> toCurveMode newMode = Inr (curveMode (pool w'))
                 \<and> lastUpdateTime (agents (ctrl w') a) = now"
    if f: "absDiff newFee (feeBps (pool w)) \<le> maxFeeDelta (ctrl w)"
      and b: "absDiff newBeta (curveBeta (pool w)) \<le> maxBetaDelta (ctrl w)"
      and u: "updateCount (ctrl w) a < UINT256_MAX"
      and c: "ctrlAddress w = controller (pool w) \<or> ctrlAddress w = epochManager (pool w)"
  proof -
    obtain cm where cm: "toCurveMode newMode = Inr cm"
      using toCurveMode_ok[OF assms(6)] by blast
    show ?thesis
      by (simp add: submit_ok[OF assms(1,2) cd assms(5) cm f b u c] cm)
  qed
  from r1 r2 r3 show ?thesis by auto
qed

theorem delta_bound_witness:
  "\<not> ctrl_paused (ctrl demo_world) \<and> active (agents (ctrl demo_world) 11)
 \<and> feeBps (pool demo_world) = 30 \<and> maxFeeDelta (ctrl demo_world) = 50
 \<and> curveBeta (pool demo_world) = 5000 \<and> maxBetaDelta (ctrl demo_world) = 2000
 \<and> submitParameterUpdate 11 81 5000 0 1700000000 5 demo_world = Inl DeltaExceedsLimit
 \<and> \<not> isl (submitParameterUpdate 11 80 5000 0 1700000000 5 demo_world)
 \<and> submitParameterUpdate 11 30 7001 0 1700000000 5 demo_world = Inl DeltaExceedsLimit
 \<and> \<not> isl (submitParameterUpdate 11 30 7000 0 1700000000 5 demo_world)"
proof -
  have h3: "lastUpdateTime (agents (ctrl demo_world) 11) = 0
         \<or> lastUpdateTime (agents (ctrl demo_world) 11) + cooldownSeconds (ctrl demo_world)
            \<le> 1700000000"
    by (simp add: demo_world_facts)
  have h4: "(1700000000::nat) \<le> UINT256_MAX"
    by (simp add: UINT256_MAX_def)
  have m: "(0::nat) \<le> 2" by simp
  have f81: "(81::nat) \<le> MAX_FEE_BPS" and f80: "(80::nat) \<le> MAX_FEE_BPS"
    and f30: "(30::nat) \<le> MAX_FEE_BPS"
    by (simp_all add: MAX_FEE_BPS_def)
  note d = delta_bound[OF demo_world_facts(1,2) h3 h4 _ m, where blk = 5]
  have r1: "submitParameterUpdate 11 81 5000 0 1700000000 5 demo_world = Inl DeltaExceedsLimit"
    using d[OF f81, of 5000] by (simp add: demo_world_facts absDiff_def)
  have r2: "\<not> isl (submitParameterUpdate 11 80 5000 0 1700000000 5 demo_world)"
    using d[OF f80, of 5000] by (auto simp: demo_world_facts absDiff_def UINT256_MAX_def)
  have r3: "submitParameterUpdate 11 30 7001 0 1700000000 5 demo_world = Inl DeltaExceedsLimit"
    using d[OF f30, of 7001] by (simp add: demo_world_facts absDiff_def)
  have r4: "\<not> isl (submitParameterUpdate 11 30 7000 0 1700000000 5 demo_world)"
    using d[OF f30, of 7000] by (auto simp: demo_world_facts absDiff_def UINT256_MAX_def)
  from r1 r2 r3 r4 show ?thesis
    by (simp add: demo_world_facts)
qed

lemma reregistration_evals:
  "submitParameterUpdate 11 40 5500 0 1700000000 5 demo_world = Inr world_updated"
  "deregisterAgent 11 True (ctrl world_updated) = Inr ctrl_left"
  "registerAgent 11 10 1700000010 ctrl_left = Inr ctrl_rejoined"
  by (simp_all add: submitParameterUpdate_def cooldownActive_def absDiff_def toCurveMode_def
        updateParameters_def deregisterAgent_def registerAgent_def Let_def arith_defs
        world_updated_def ctrl_left_def ctrl_rejoined_def demo_world_def demo_ctrl_def
        demo_pool_def newAgent_def)

text \<open>
  Claim C10: \<open>registerAgent\<close> always writes \<open>lastUpdateTime = 0\<close>, also for an agent that
  registers again after a deregistration, and \<open>submitParameterUpdate\<close> skips the cooldown
  test when \<open>lastUpdateTime\<close> is 0.  So when an accepted update is followed by
  \<open>deregisterAgent\<close> and \<open>registerAgent\<close>, the agent's next update, within the caps and the
  delta bounds measured from the first update, is accepted at any time \<open>t4\<close>; without the
  re-registration the same update sent before the cooldown has run out is rejected with
  \<open>CooldownActive\<close>.
\<close>

theorem reregistration_skips_cooldown:
  "(registerAgent a v t c = Inr c' \<longrightarrow>
      lastUpdateTime (agents c' a) = 0 \<and> active (agents c' a))
 \<and> (submitParameterUpdate a f1 b1 m1 t1 blk1 w0 = Inr w1
      \<and> deregisterAgent a callOk (ctrl w1) = Inr c2
      \<and> registerAgent a bond t3 c2 = Inr c3
      \<and> f2 \<le> MAX_FEE_BPS \<and> m2 \<le> 2
      \<and> absDiff f2 f1 \<le> maxFeeDelta (ctrl w0) \<and> absDiff b2 b1 \<le> maxBetaDelta (ctrl w0)
      \<and> updateCount (ctrl w1) a < UINT256_MAX \<longrightarrow>
      (\<exists>w4. submitParameterUpdate a f2 b2 m2 t4 blk4 (w1\<lparr>ctrl := c3\<rparr>) = Inr w4
           \<and> feeBps (pool w4) = f2 \<and> curveBeta (pool w4) = b2))
 \<and> (submitParameterUpdate a f1 b1 m1 t1 blk1 w0 = Inr w1
      \<and> t1 \<noteq> 0 \<and> t4 < t1 + cooldownSeconds (ctrl w0)
      \<and> t1 + cooldownSeconds (ctrl w0) \<le> UINT256_MAX \<longrightarrow>
      submitParameterUpdate a f2 b2 m2 t4 blk4 w1 = Inl CooldownActive)"
proof (intro conjI impI)
  assume "registerAgent a v t c = Inr c'"
  from registerAgent_Inr(1)[OF this]
  show "lastUpdateTime (agents c' a) = 0" and "active (agents c' a)" by simp_all
next
  assume h: "submitParameterUpdate a f1 b1 m1 t1 blk1 w0 = Inr w1
      \<and> deregisterAgent a callOk (ctrl w1) = Inr c2
      \<and> registerAgent a bond t3 c2 = Inr c3
      \<and> f2 \<le> MAX_FEE_BPS \<and> m2 \<le> 2
      \<and> absDiff f2 f1 \<le> maxFeeDelta (ctrl w0) \<and> absDiff b2 b1 \<le> maxBetaDelta (ctrl w0)
      \<and> updateCount (ctrl w1) a < UINT256_MAX"
  then have s1: "submitParameterUpdate a f1 b1 m1 t1 blk1 w0 = Inr w1" by simp
  from s1 obtain cm1 where
    w1: "w1 = w0\<lparr>pool := (pool w0)\<lparr>feeBps := f1, curveBeta := b1, curveMode := cm1,
                                    parameterUpdateBlock := blk1\<rparr>,
              ctrl := (ctrl w0)\<lparr>agents := (agents (ctrl w0))
                                   (a := (agents (ctrl w0) a)\<lparr>lastUpdateTime := t1\<rparr>),
                                updateCount := (updateCount (ctrl w0))
                                   (a := Suc (updateCount (ctrl w0) a))\<rparr>\<rparr>"
    and auth: "ctrlAddress w0 = controller (pool w0) \<or> ctrlAddress w0 = epochManager (pool w0)"
    by (rule submit_Inr)
  from h have c2: "c2 = (ctrl w1)\<lparr>agents := (agents (ctrl w1))
                         (a := (agents (ctrl w1) a)\<lparr>active := False, bondAmount := 0\<rparr>)\<rparr>"
    using deregisterAgent_Inr by blast
  from h have reg: "registerAgent a bond t3 c2 = Inr c3" by simp
  note c3 = registerAgent_Inr[OF reg]
  obtain cm2 where cm2: "toCurveMode m2 = Inr cm2"
    using toCurveMode_ok[of m2] h by blast
  let ?w = "w1\<lparr>ctrl := c3\<rparr>"
  have p1: "\<not> ctrl_paused (ctrl ?w)" using c3 by simp
  have p2: "active (agents (ctrl ?w) a)" using c3(1) by simp
  have p3: "cooldownActive (agents (ctrl ?w) a) (cooldownSeconds (ctrl ?w)) t4 = Inr False"
    using c3(1) by (simp add: cooldownActive_def)
  have p4: "f2 \<le> MAX_FEE_BPS" using h by simp
  have p6: "absDiff f2 (feeBps (pool ?w)) \<le> maxFeeDelta (ctrl ?w)"
    using h c3(1) c2 w1 by simp
  have p7: "absDiff b2 (curveBeta (pool ?w)) \<le> maxBetaDelta (ctrl ?w)"
    using h c3(1) c2 w1 by simp
  have p8: "updateCount (ctrl ?w) a < UINT256_MAX"
    using h c3(1) c2 by simp
  have p9: "ctrlAddress ?w = controller (pool ?w) \<or> ctrlAddress ?w = epochManager (pool ?w)"
    using auth w1 by simp
  show "\<exists>w4. submitParameterUpdate a f2 b2 m2 t4 blk4 ?w = Inr w4
           \<and> feeBps (pool w4) = f2 \<and> curveBeta (pool w4) = b2"
    by (simp add: submit_ok[OF p1 p2 p3 p4 cm2 p6 p7 p8 p9])
next
  assume h: "submitParameterUpdate a f1 b1 m1 t1 blk1 w0 = Inr w1
      \<and> t1 \<noteq> 0 \<and> t4 < t1 + cooldownSeconds (ctrl w0)
      \<and> t1 + cooldownSeconds (ctrl w0) \<le> UINT256_MAX"
  then have s1: "submitParameterUpdate a f1 b1 m1 t1 blk1 w0 = Inr w1" by simp
  from s1 obtain cm1 where
    w1: "w1 = w0\<lparr>pool := (pool w0)\<lparr>feeBps := f1, curveBeta := b1, curveMode := cm1,
                                    parameterUpdateBlock := blk1\<rparr>,
              ctrl := (ctrl w0)\<lparr>agents := (agents (ctrl w0))
                                   (a := (agents (ctrl w0) a)\<lparr>lastUpdateTime := t1\<rparr>),
                                updateCount := (updateCount (ctrl w0))
                                   (a := Suc (updateCount (ctrl w0) a))\<rparr>\<rparr>"
    and np: "\<not> ctrl_paused (ctrl w0)" and act: "active (agents (ctrl w0) a)"
    by (rule submit_Inr)
  have "cooldownActive (agents (ctrl w1) a) (cooldownSeconds (ctrl w1)) t4 = Inr True"
    using h by (simp add: w1 cooldownActive_def checked_add_def)
  then show "submitParameterUpdate a f2 b2 m2 t4 blk4 w1 = Inl CooldownActive"
    using np act by (simp add: submitParameterUpdate_def Let_def w1)
qed

theorem reregistration_skips_cooldown_witness:
  "submitParameterUpdate 11 40 5500 0 1700000000 5 demo_world = Inr world_updated
 \<and> deregisterAgent 11 True (ctrl world_updated) = Inr ctrl_left
 \<and> registerAgent 11 10 1700000010 ctrl_left = Inr ctrl_rejoined
 \<and> lastUpdateTime (agents ctrl_rejoined 11) = 0
 \<and> (1700000020::nat) < 1700000000 + cooldownSeconds (ctrl demo_world)
 \<and> \<not> isl (submitParameterUpdate 11 50 6000 1 1700000020 6
            (world_updated\<lparr>ctrl := ctrl_rejoined\<rparr>))
 \<and> submitParameterUpdate 11 50 6000 1 1700000020 6 world_updated = Inl CooldownActive"
proof -
  note t = reregistration_skips_cooldown[where a = 11 and v = 10 and t = 1700000010
      and c = ctrl_left and c' = ctrl_rejoined
      and ?f1.0 = 40 and ?b1.0 = 5500 and ?m1.0 = 0 and ?t1.0 = 1700000000 and ?blk1.0 = 5
      and ?w0.0 = demo_world and ?w1.0 = world_updated and callOk = True
      and ?c2.0 = ctrl_left and bond = 10 and ?t3.0 = 1700000010 and ?c3.0 = ctrl_rejoined
      and ?f2.0 = 50 and ?b2.0 = 6000 and ?m2.0 = 1 and ?t4.0 = 1700000020 and ?blk4.0 = 6]
  have u: "updateCount (ctrl world_updated) 11 < UINT256_MAX"
    by (simp add: world_updated_def demo_world_def UINT256_MAX_def)
  have "lastUpdateTime (agents ctrl_rejoined 11) = 0"
    using t reregistration_evals by simp
  moreover have "\<not> isl (submitParameterUpdate 11 50 6000 1 1700000020 6
            (world_updated\<lparr>ctrl := ctrl_rejoined\<rparr>))"
    using t reregistration_evals u
    by (auto simp: demo_world_facts absDiff_def MAX_FEE_BPS_def)
  moreover have "submitParameterUpdate 11 50 6000 1 1700000020 6 world_updated
      = Inl CooldownActive"
    using t reregistration_evals
    by (simp add: demo_world_facts UINT256_MAX_def)
  ultimately show ?thesis
    by (simp add: reregistration_evals demo_world_facts)
qed

section \<open>The epoch manager\<close>





lemma submitProposal_beta_irrelevant:
  "isl (submitProposal a fee beta mode now w) = isl (submitProposal a fee beta' mode now w)"
  unfolding submitProposal_def Let_def bindE_def
  by (auto split: sum.splits)

subsection \<open>The demo epoch\<close>

lemmas epoch_defs = submitProposal_def checkAndAdvanceEpoch_def startNextEpoch_def
  finalizeEpoch_def updateParameters_def toCurveMode_def Let_def

lemmas world_defs = world_one_def world_three_def world_max_def epoch_one_def
  proposal_11_def proposal_12_def proposal_13_def proposal_max_def
  demo_world_def demo_em_def demo_ctrl_def demo_pool_def newAgent_def noAgent_def noEpoch_def

lemma demo_em_reached: "newEpochManager 600 9 1700000000 = Inr demo_em"
  by (simp add: newEpochManager_def demo_em_def arith_defs)

lemma fun_upd_eq_same: "(f(x := a) = f(x := b)) = (a = b)"
  by (metis fun_upd_same)

lemma demo_proposals_submitted:
  "submitProposal 11 50 6000 1 1700000010 demo_world = Inr world_one"
  "submitProposal 11 50 UINT256_MAX 1 1700000010 demo_world = Inr world_max"
  "bindE (submitProposal 12 40 5500 0 1700000020 world_one)
     (submitProposal 13 45 7000 2 1700000030) = Inr world_three"
  by (simp_all add: epoch_defs world_defs arith_defs fun_upd_eq_same)

lemma world_three_facts:
  "epochProposals (em world_three) 1 = [proposal_11, proposal_12, proposal_13]"
  "prop_agent proposal_11 = 11" "prop_agent proposal_12 = 12" "prop_agent proposal_13 = 13"
  "currentEpochId (em world_three) = 1"
  "endTime (epochs (em world_three) 1) = 1700000600"
  "proposalCount (epochs (em world_three) 1) = 3"
  "\<not> finalized (epochs (em world_three) 1)"
  "scorer (em world_three) = 9"
  "prop_feeBps proposal_12 = 40" "prop_curveBeta proposal_12 = 5500"
  "prop_curveMode proposal_12 = 0"
  by (simp_all add: world_defs)

lemma early_finalize_eval:
  "\<not> isl early_finalize"
  "finalized (epochs (em (projr early_finalize)) 1)"
  "winner (epochs (em (projr early_finalize)) 1) = 12"
  "currentEpochId (em (projr early_finalize)) = 2"
  "startTime (epochs (em (projr early_finalize)) 2) = 1700000100"
  "feeBps (pool (projr early_finalize)) = 40"
  by (simp_all add: early_finalize_def epoch_defs world_defs arith_defs)


subsection \<open>Finalization and the end of the epoch\<close>

text \<open>
  Claim C4: \<open>finalizeEpoch\<close> succeeds only for the scorer, on an epoch that is not yet
  finalized, and after the epoch's \<open>endTime\<close>; a call before \<open>endTime\<close> is rejected.

  The code has the first two checks and not the third: the error \<open>EpochStillActive\<close> is
  declared and never raised, although the function's documentation says "only callable
  by the trusted scorer after epoch ends".  With the three proposals of the test suite
  in epoch 1, which ends at 1700000600, the scorer's call at 1700000100 goes through: the
  epoch is finalized with agent 12 as winner, the pool takes the winner's fee of 40, and
  epoch 2 starts at 1700000100.
\<close>

theorem finalize_before_end:
  "(1700000100::nat) < endTime (epochs (em world_three) 1)
 \<and> \<not> finalized (epochs (em world_three) 1)
 \<and> \<not> isl early_finalize
 \<and> finalized (epochs (em (projr early_finalize)) 1)
 \<and> winner (epochs (em (projr early_finalize)) 1) = 12
 \<and> currentEpochId (em (projr early_finalize)) = 2
 \<and> startTime (epochs (em (projr early_finalize)) 2) = 1700000100
 \<and> feeBps (pool (projr early_finalize)) = 40"
  using early_finalize_eval world_three_facts by simp

subsection \<open>The winner of a finalized epoch\<close>

text \<open>
  Claim C5: in every reachable state, a finalized epoch has no proposals or its winner
  is one of its proposers.

  \<open>finalizeEpoch\<close> compares only the length of the agent list with the proposal count, and
  keeps a score only when it is strictly greater than the initial best score 0.  In
  epoch 1 with the single proposal of agent 11: the scorer's call with the matching list
  \<open>[11]\<close> and the score 0 finalizes the epoch with winner \<open>address(0)\<close>, credits a win to
  \<open>address(0)\<close> and leaves the pool's parameters alone; the call with the list \<open>[99]\<close> and
  score 7000 finalizes it with winner 99, who never proposed.  The documentation of the
  function asks for a list that "must match epochAgents" and promises that "the
  highest-scoring agent's parameters are applied to the pool".
\<close>

theorem finalized_winner_not_proposer:
  "\<not> isl zero_score_finalize
 \<and> finalized (epochs (em (projr zero_score_finalize)) 1)
 \<and> proposalCount (epochs (em (projr zero_score_finalize)) 1) = 1
 \<and> epochAgents (em (projr zero_score_finalize)) 1 = [11]
 \<and> winner (epochs (em (projr zero_score_finalize)) 1) = 0
 \<and> epochsWon (em (projr zero_score_finalize)) 0 = 1
 \<and> feeBps (pool (projr zero_score_finalize)) = feeBps (pool world_one)
 \<and> \<not> isl stranger_finalize
 \<and> finalized (epochs (em (projr stranger_finalize)) 1)
 \<and> proposalCount (epochs (em (projr stranger_finalize)) 1) = 1
 \<and> epochAgents (em (projr stranger_finalize)) 1 = [11]
 \<and> winner (epochs (em (projr stranger_finalize)) 1) = 99"
  by (simp add: zero_score_finalize_def stranger_finalize_def epoch_defs world_defs arith_defs)

subsection \<open>Epoch determinism\<close>



subsection \<open>No bound on the curve intensity\<close>

lemma checkAndAdvanceEpoch_proposals:
  assumes "checkAndAdvanceEpoch now e = Inr e'"
  shows "epochProposals e' = epochProposals e"
  using assms
  by (auto simp: checkAndAdvanceEpoch_def startNextEpoch_def Let_def bindE_Inr_iff
        split: if_splits)

lemma submitProposal_Inr:
  assumes "submitProposal a fee beta mode now w = Inr w1"
  shows "epochProposals (em w1) (currentEpochId (em w1))
           = epochProposals (em w) (currentEpochId (em w1))
             @ [\<lparr>prop_agent = a, prop_feeBps = fee, prop_curveBeta = beta,
                 prop_curveMode = mode, prop_timestamp = now\<rparr>]"
    and "hasProposed (em w1) (currentEpochId (em w1)) a"
    and "fee \<le> 500" and "mode \<le> 2"
    and "pool w1 = pool w" and "emAddress w1 = emAddress w"
proof -
  from assms obtain e pc n where
    e: "checkAndAdvanceEpoch now (em w) = Inr e"
    and fm: "fee \<le> 500" "mode \<le> 2"
    and w1: "w1 = w\<lparr>em := e\<lparr>
        epochProposals := (epochProposals e)(currentEpochId e :=
           epochProposals e (currentEpochId e)
             @ [\<lparr>prop_agent = a, prop_feeBps = fee, prop_curveBeta = beta,
                 prop_curveMode = mode, prop_timestamp = now\<rparr>]),
        hasProposed := (hasProposed e)(currentEpochId e :=
           (hasProposed e (currentEpochId e))(a := True)),
        epochAgents := (epochAgents e)(currentEpochId e := epochAgents e (currentEpochId e) @ [a]),
        epochs := (epochs e)(currentEpochId e := (epochs e (currentEpochId e))\<lparr>proposalCount := pc\<rparr>),
        epochsParticipated := (epochsParticipated e)(a := n)\<rparr>\<rparr>"
    unfolding submitProposal_def Let_def
    by (auto simp: bindE_Inr_iff split: if_splits)
  note pr = checkAndAdvanceEpoch_proposals[OF e]
  show "epochProposals (em w1) (currentEpochId (em w1))
           = epochProposals (em w) (currentEpochId (em w1))
             @ [\<lparr>prop_agent = a, prop_feeBps = fee, prop_curveBeta = beta,
                 prop_curveMode = mode, prop_timestamp = now\<rparr>]"
    by (simp add: w1 pr)
  show "hasProposed (em w1) (currentEpochId (em w1)) a"
    by (simp add: w1)
  show "fee \<le> 500" and "mode \<le> 2" by (rule fm)+
  show "pool w1 = pool w" and "emAddress w1 = emAddress w" by (simp_all add: w1)
qed

lemma submitProposal_ok:
  assumes "now < endTime (epochs (em w) (currentEpochId (em w)))"
    and "\<not> hasProposed (em w) (currentEpochId (em w)) a"
    and "active (agents (ctrl w) a)"
    and "fee \<le> 500" and "mode \<le> 2"
    and "proposalCount (epochs (em w) (currentEpochId (em w))) < UINT256_MAX"
    and "epochsParticipated (em w) a < UINT256_MAX"
  shows "\<exists>w1. submitProposal a fee beta mode now w = Inr w1
           \<and> currentEpochId (em w1) = currentEpochId (em w)"
  using assms
  by (simp add: submitProposal_def checkAndAdvanceEpoch_def Let_def checked_add_def)

lemma finalize_single_ok:
  assumes "caller = scorer (em u)" and "\<not> finalized (epochs (em u) eid)"
    and "proposalCount (epochs (em u) eid) = 1" and "epochProposals (em u) eid = [q]"
    and "prop_agent q = A" and "0 < score"
    and "prop_feeBps q \<le> MAX_FEE_BPS" and "prop_curveMode q \<le> 2"
    and "totalScore (em u) A + score \<le> UINT256_MAX" and "epochsWon (em u) A < UINT256_MAX"
    and "currentEpochId (em u) < UINT256_MAX" and "t + epochDuration (em u) \<le> UINT256_MAX"
    and "emAddress u = controller (pool u) \<or> emAddress u = epochManager (pool u)"
  shows "\<exists>u'. finalizeEpoch caller eid [A] [score] t blk u = Inr u'
           \<and> curveBeta (pool u') = prop_curveBeta q"
proof -
  obtain cm' where cm': "toCurveMode (prop_curveMode q) = Inr cm'"
    using toCurveMode_ok[OF assms(8)] by blast
  have sl: "scoreLoop eid [A] [score] (em u) 0 0 =
              Inr ((em u)\<lparr>agentScores := (agentScores (em u))
                              (eid := (agentScores (em u) eid)(A := score)),
                          totalScore := (totalScore (em u))(A := totalScore (em u) A + score)\<rparr>,
                   A, score)"
    using assms(6,9) by (simp add: checked_add_def Let_def)
  have up: "updateParameters (emAddress u) (prop_feeBps q) (prop_curveBeta q) cm' A blk (pool u)
              = Inr ((pool u)\<lparr>feeBps := prop_feeBps q, curveBeta := prop_curveBeta q,
                              curveMode := cm', parameterUpdateBlock := blk\<rparr>)"
    using assms(7,13) by (intro updateParameters_ok) simp_all
  show ?thesis
    using assms
    by (simp add: finalizeEpoch_def Let_def sl cm' up startNextEpoch_def checked_add_def)
qed

text \<open>
  Claim C9: \<open>updateParameters\<close> accepts every \<open>curveBeta\<close> from an authorized caller with a
  fee of at most 500 and stores it.  \<open>submitProposal\<close> accepts or rejects a proposal
  regardless of its \<open>curveBeta\<close>: in an open epoch an active agent that has not proposed
  yet is accepted with any \<open>curveBeta\<close>, and every accepted call appends the proposal,
  with exactly the submitted \<open>curveBeta\<close>, to the proposals of the current epoch.
  \<open>finalizeEpoch\<close> hands the winner's \<open>curveBeta\<close> to the pool unchecked: for an epoch with
  one proposal and a positive score the call goes through under conditions that do not
  mention \<open>curveBeta\<close> (the scorer calls, the epoch is not finalized, the proposal passed
  the fee and mode checks, no counter is at its maximum, the pool accepts the epoch
  manager), and the pool's \<open>curveBeta\<close> is then the proposed one.  End to end: after an
  accepted \<open>submitProposal\<close> with any \<open>curveBeta\<close> into an epoch without proposals, that
  finalization sets the pool's \<open>curveBeta\<close> to the submitted value, however far it is
  from the pool's current one.
\<close>

theorem curveBeta_unbounded:
  "((sender = controller p \<or> sender = epochManager p) \<and> fee \<le> MAX_FEE_BPS \<longrightarrow>
      (\<exists>p'. updateParameters sender fee beta cm ag blk p = Inr p' \<and> curveBeta p' = beta))
 \<and> isl (submitProposal a fee' beta mode now w) = isl (submitProposal a fee' beta' mode now w)
 \<and> (now < endTime (epochs (em w) (currentEpochId (em w)))
      \<and> \<not> hasProposed (em w) (currentEpochId (em w)) a
      \<and> active (agents (ctrl w) a) \<and> fee' \<le> 500 \<and> mode \<le> 2
      \<and> proposalCount (epochs (em w) (currentEpochId (em w))) < UINT256_MAX
      \<and> epochsParticipated (em w) a < UINT256_MAX \<longrightarrow>
      (\<exists>w1. submitProposal a fee' beta mode now w = Inr w1
           \<and> currentEpochId (em w1) = currentEpochId (em w)))
 \<and> (submitProposal a fee' beta mode now w = Inr w1 \<longrightarrow>
      epochProposals (em w1) (currentEpochId (em w1))
        = epochProposals (em w) (currentEpochId (em w1))
          @ [\<lparr>prop_agent = a, prop_feeBps = fee', prop_curveBeta = beta,
              prop_curveMode = mode, prop_timestamp = now\<rparr>]
      \<and> pool w1 = pool w)
 \<and> (caller = scorer (em u) \<and> \<not> finalized (epochs (em u) eid)
      \<and> proposalCount (epochs (em u) eid) = 1 \<and> epochProposals (em u) eid = [q]
      \<and> prop_agent q = A \<and> 0 < score
      \<and> prop_feeBps q \<le> MAX_FEE_BPS \<and> prop_curveMode q \<le> 2
      \<and> totalScore (em u) A + score \<le> UINT256_MAX \<and> epochsWon (em u) A < UINT256_MAX
      \<and> currentEpochId (em u) < UINT256_MAX \<and> t + epochDuration (em u) \<le> UINT256_MAX
      \<and> (emAddress u = controller (pool u) \<or> emAddress u = epochManager (pool u)) \<longrightarrow>
      (\<exists>u'. finalizeEpoch caller eid [A] [score] t blk' u = Inr u'
           \<and> curveBeta (pool u') = prop_curveBeta q))
 \<and> (submitProposal a fee' beta mode now w = Inr w1
      \<and> epochProposals (em w) (currentEpochId (em w1)) = []
      \<and> proposalCount (epochs (em w1) (currentEpochId (em w1))) = 1
      \<and> \<not> finalized (epochs (em w1) (currentEpochId (em w1)))
      \<and> caller = scorer (em w1) \<and> 0 < score
      \<and> totalScore (em w1) a + score \<le> UINT256_MAX \<and> epochsWon (em w1) a < UINT256_MAX
      \<and> currentEpochId (em w1) < UINT256_MAX \<and> t + epochDuration (em w1) \<le> UINT256_MAX
      \<and> (emAddress w = controller (pool w) \<or> emAddress w = epochManager (pool w)) \<longrightarrow>
      (\<exists>w2. finalizeEpoch caller (currentEpochId (em w1)) [a] [score] t blk' w1 = Inr w2
           \<and> curveBeta (pool w2) = beta))"
proof (intro conjI impI)
  assume "(sender = controller p \<or> sender = epochManager p) \<and> fee \<le> MAX_FEE_BPS"
  then show "\<exists>p'. updateParameters sender fee beta cm ag blk p = Inr p' \<and> curveBeta p' = beta"
    by (simp add: updateParameters_ok)
next
  show "isl (submitProposal a fee' beta mode now w) = isl (submitProposal a fee' beta' mode now w)"
    by (rule submitProposal_beta_irrelevant)
next
  assume "now < endTime (epochs (em w) (currentEpochId (em w)))
      \<and> \<not> hasProposed (em w) (currentEpochId (em w)) a
      \<and> active (agents (ctrl w) a) \<and> fee' \<le> 500 \<and> mode \<le> 2
      \<and> proposalCount (epochs (em w) (currentEpochId (em w))) < UINT256_MAX
      \<and> epochsParticipated (em w) a < UINT256_MAX"
  then show "\<exists>w1. submitProposal a fee' beta mode now w = Inr w1
           \<and> currentEpochId (em w1) = currentEpochId (em w)"
    by (intro submitProposal_ok) simp_all
next
  assume s: "submitProposal a fee' beta mode now w = Inr w1"
  from submitProposal_Inr(1)[OF s]
  show "epochProposals (em w1) (currentEpochId (em w1))
        = epochProposals (em w) (currentEpochId (em w1))
          @ [\<lparr>prop_agent = a, prop_feeBps = fee', prop_curveBeta = beta,
              prop_curveMode = mode, prop_timestamp = now\<rparr>]" .
  from submitProposal_Inr(5)[OF s] show "pool w1 = pool w" .
next
  assume h: "caller = scorer (em u) \<and> \<not> finalized (epochs (em u) eid)
      \<and> proposalCount (epochs (em u) eid) = 1 \<and> epochProposals (em u) eid = [q]
      \<and> prop_agent q = A \<and> 0 < score
      \<and> prop_feeBps q \<le> MAX_FEE_BPS \<and> prop_curveMode q \<le> 2
      \<and> totalScore (em u) A + score \<le> UINT256_MAX \<and> epochsWon (em u) A < UINT256_MAX
      \<and> currentEpochId (em u) < UINT256_MAX \<and> t + epochDuration (em u) \<le> UINT256_MAX
      \<and> (emAddress u = controller (pool u) \<or> emAddress u = epochManager (pool u))"
  then show "\<exists>u'. finalizeEpoch caller eid [A] [score] t blk' u = Inr u'
           \<and> curveBeta (pool u') = prop_curveBeta q"
    by (intro finalize_single_ok) simp_all
next
  assume h: "submitProposal a fee' beta mode now w = Inr w1
      \<and> epochProposals (em w) (currentEpochId (em w1)) = []
      \<and> proposalCount (epochs (em w1) (currentEpochId (em w1))) = 1
      \<and> \<not> finalized (epochs (em w1) (currentEpochId (em w1)))
      \<and> caller = scorer (em w1) \<and> 0 < score
      \<and> totalScore (em w1) a + score \<le> UINT256_MAX \<and> epochsWon (em w1) a < UINT256_MAX
      \<and> currentEpochId (em w1) < UINT256_MAX \<and> t + epochDuration (em w1) \<le> UINT256_MAX
      \<and> (emAddress w = controller (pool w) \<or> emAddress w = epochManager (pool w))"
  then have s: "submitProposal a fee' beta mode now w = Inr w1" by simp
  note f = submitProposal_Inr[OF s]
  let ?q = "\<lparr>prop_agent = a, prop_feeBps = fee', prop_curveBeta = beta,
              prop_curveMode = mode, prop_timestamp = now\<rparr>"
  have l: "epochProposals (em w1) (currentEpochId (em w1)) = [?q]"
    using f(1) h by simp
  have "\<exists>w2. finalizeEpoch caller (currentEpochId (em w1)) [a] [score] t blk' w1 = Inr w2
           \<and> curveBeta (pool w2) = prop_curveBeta ?q"
    using h l f(3,4,5,6) by (intro finalize_single_ok) (simp_all add: MAX_FEE_BPS_def)
  then show "\<exists>w2. finalizeEpoch caller (currentEpochId (em w1)) [a] [score] t blk' w1 = Inr w2
           \<and> curveBeta (pool w2) = beta"
    by simp
qed

theorem curveBeta_unbounded_witness:
  "\<not> isl (updateParameters 200 30 UINT256_MAX Normal 11 7 demo_pool)
 \<and> curveBeta (projr (updateParameters 200 30 UINT256_MAX Normal 11 7 demo_pool)) = UINT256_MAX
 \<and> \<not> isl (submitProposal 11 50 6000 1 1700000010 demo_world)
 \<and> \<not> isl (submitProposal 11 50 UINT256_MAX 1 1700000010 demo_world)
 \<and> submitProposal 11 50 UINT256_MAX 1 1700000010 demo_world = Inr world_max
 \<and> epochProposals (em demo_world) (currentEpochId (em world_max)) = []
 \<and> epochProposals (em world_max) (currentEpochId (em world_max))
     = [\<lparr>prop_agent = 11, prop_feeBps = 50, prop_curveBeta = UINT256_MAX,
         prop_curveMode = 1, prop_timestamp = 1700000010\<rparr>]
 \<and> epochProposals (em world_max) 1 = [proposal_max]
 \<and> maxBetaDelta (ctrl world_max) < absDiff UINT256_MAX (curveBeta (pool world_max))
 \<and> \<not> isl max_finalize
 \<and> curveBeta (pool (projr max_finalize)) = UINT256_MAX"
proof -
  note t = curveBeta_unbounded[where sender = 200 and p = demo_pool and fee = 30
      and beta = UINT256_MAX and cm = Normal and ag = 11 and blk = 7
      and a = 11 and fee' = 50 and beta' = 6000 and mode = 1 and now = 1700000010
      and w = demo_world and ?w1.0 = world_max
      and caller = 9 and u = world_max and eid = 1 and q = proposal_max and A = 11
      and score = 7000 and t = 1700000700 and blk' = 7]
  have sub_max: "submitProposal 11 50 UINT256_MAX 1 1700000010 demo_world = Inr world_max"
    by (rule demo_proposals_submitted(2))
  have open_epoch: "1700000010 < endTime (epochs (em demo_world) (currentEpochId (em demo_world)))
      \<and> \<not> hasProposed (em demo_world) (currentEpochId (em demo_world)) 11
      \<and> active (agents (ctrl demo_world) 11) \<and> (50::nat) \<le> 500 \<and> (1::nat) \<le> 2
      \<and> proposalCount (epochs (em demo_world) (currentEpochId (em demo_world))) < UINT256_MAX
      \<and> epochsParticipated (em demo_world) 11 < UINT256_MAX"
    by (simp add: world_defs arith_defs)
  from t open_epoch have acc: "\<exists>w1. submitProposal 11 50 UINT256_MAX 1 1700000010 demo_world = Inr w1
      \<and> currentEpochId (em w1) = currentEpochId (em demo_world)"
    by blast
  have cur: "currentEpochId (em world_max) = 1"
    by (simp add: world_defs)
  have empty: "epochProposals (em demo_world) (currentEpochId (em world_max)) = []"
    by (simp add: world_defs)
  from t sub_max have stored0: "epochProposals (em world_max) (currentEpochId (em world_max))
      = epochProposals (em demo_world) (currentEpochId (em world_max))
        @ [\<lparr>prop_agent = 11, prop_feeBps = 50, prop_curveBeta = UINT256_MAX,
            prop_curveMode = 1, prop_timestamp = 1700000010\<rparr>]"
    by blast
  then have stored: "epochProposals (em world_max) (currentEpochId (em world_max))
      = [\<lparr>prop_agent = 11, prop_feeBps = 50, prop_curveBeta = UINT256_MAX,
          prop_curveMode = 1, prop_timestamp = 1700000010\<rparr>]"
    by (simp add: empty)
  have hyp: "9 = scorer (em world_max) \<and> \<not> finalized (epochs (em world_max) 1)
      \<and> proposalCount (epochs (em world_max) 1) = 1
      \<and> epochProposals (em world_max) 1 = [proposal_max]
      \<and> prop_agent proposal_max = 11 \<and> (0::nat) < 7000
      \<and> prop_feeBps proposal_max \<le> MAX_FEE_BPS \<and> prop_curveMode proposal_max \<le> 2
      \<and> totalScore (em world_max) 11 + 7000 \<le> UINT256_MAX
      \<and> epochsWon (em world_max) 11 < UINT256_MAX
      \<and> currentEpochId (em world_max) < UINT256_MAX
      \<and> 1700000700 + epochDuration (em world_max) \<le> UINT256_MAX
      \<and> (emAddress world_max = controller (pool world_max)
          \<or> emAddress world_max = epochManager (pool world_max))"
    by (simp add: world_defs arith_defs)
  have cb: "prop_curveBeta proposal_max = UINT256_MAX"
    by (simp add: proposal_max_def)
  from t hyp have fin: "\<exists>u'. max_finalize = Inr u' \<and> curveBeta (pool u') = UINT256_MAX"
    unfolding max_finalize_def cb by blast
  have e2e_hyp: "submitProposal 11 50 UINT256_MAX 1 1700000010 demo_world = Inr world_max
      \<and> epochProposals (em demo_world) (currentEpochId (em world_max)) = []
      \<and> proposalCount (epochs (em world_max) (currentEpochId (em world_max))) = 1
      \<and> \<not> finalized (epochs (em world_max) (currentEpochId (em world_max)))
      \<and> 9 = scorer (em world_max) \<and> (0::nat) < 7000
      \<and> totalScore (em world_max) 11 + 7000 \<le> UINT256_MAX
      \<and> epochsWon (em world_max) 11 < UINT256_MAX
      \<and> currentEpochId (em world_max) < UINT256_MAX
      \<and> 1700000700 + epochDuration (em world_max) \<le> UINT256_MAX
      \<and> (emAddress demo_world = controller (pool demo_world)
          \<or> emAddress demo_world = epochManager (pool demo_world))"
    using sub_max empty hyp by (simp add: cur demo_world_facts)
  from t e2e_hyp have e2e: "\<exists>w2. finalizeEpoch 9 (currentEpochId (em world_max)) [11] [7000]
        1700000700 7 world_max = Inr w2 \<and> curveBeta (pool w2) = UINT256_MAX"
    by blast
  have auth: "(200 = controller demo_pool \<or> 200 = epochManager demo_pool)
      \<and> (30::nat) \<le> MAX_FEE_BPS"
    by (simp add: demo_pool_def MAX_FEE_BPS_def)
  from t auth have upd: "\<exists>p'. updateParameters 200 30 UINT256_MAX Normal 11 7 demo_pool = Inr p'
      \<and> curveBeta p' = UINT256_MAX"
    by blast
  from t have same: "isl (submitProposal 11 50 UINT256_MAX 1 1700000010 demo_world)
      = isl (submitProposal 11 50 6000 1 1700000010 demo_world)"
    by blast
  have sub: "\<not> isl (submitProposal 11 50 6000 1 1700000010 demo_world)"
    using demo_proposals_submitted(1) by simp
  have far: "maxBetaDelta (ctrl world_max) < absDiff UINT256_MAX (curveBeta (pool world_max))"
    by (simp add: world_defs absDiff_def UINT256_MAX_def)
  from e2e obtain w2 where w2: "max_finalize = Inr w2" "curveBeta (pool w2) = UINT256_MAX"
    unfolding max_finalize_def cur by blast
  from upd obtain p' where
    p': "updateParameters 200 30 UINT256_MAX Normal 11 7 demo_pool = Inr p'"
      "curveBeta p' = UINT256_MAX"
    by blast
  have f1: "\<not> isl max_finalize" and f2: "curveBeta (pool (projr max_finalize)) = UINT256_MAX"
    by (simp_all add: w2)
  have g1: "\<not> isl (updateParameters 200 30 UINT256_MAX Normal 11 7 demo_pool)"
    and g2: "curveBeta (projr (updateParameters 200 30 UINT256_MAX Normal 11 7 demo_pool))
               = UINT256_MAX"
    by (simp_all add: p')
  have s2: "\<not> isl (submitProposal 11 50 UINT256_MAX 1 1700000010 demo_world)"
    using same sub by simp
  from hyp have l: "epochProposals (em world_max) 1 = [proposal_max]"
    by blast
  from acc fin f1 f2 g1 g2 sub s2 sub_max empty stored l far show ?thesis
    by blast
qed


end
